theory Spec2Isabelle
  imports
    Complex_Main
    "HOL-Library.Multiset"
    "HOL-Library.Char_ord"
    "HOL-Library.List_Lexorder"
begin

chapter \<open>mcp-cli: retry engine, worker pool, tool-list cache and the list/grep flows\<close>

text \<open>
  A shallow embedding of the orchestration core of mcp-cli (TypeScript, run by Bun):
  \<^item> \<open>client.ts\<close>: \<open>isTransientError\<close>, \<open>getRetryConfig\<close>, \<open>calculateDelay\<close>, \<open>withRetry\<close>;
  \<^item> \<open>cache.ts\<close>: \<open>getCachedToolList\<close>, \<open>setCachedToolList\<close> and their helpers;
  \<^item> \<open>commands/list.ts\<close> and \<open>commands/grep.ts\<close>: \<open>processWithConcurrency\<close>,
    \<open>fetchServerTools\<close>, \<open>searchServerTools\<close>, \<open>listCommand\<close>, \<open>grepCommand\<close>.

  Conventions of the embedding.
  \<^item> A JavaScript string is an Isabelle \<open>string\<close>: a list of code units below 256.
  \<^item> A promise is modelled by the value it settles to: \<open>Inr v\<close> when it resolves with
    \<open>v\<close>, \<open>Inl e\<close> when it rejects with \<open>e\<close>. A \<open>throw\<close> is an \<open>Inl\<close> as well.
  \<^item> What the outside world answers (the clock, the network, \<open>Math.random\<close>, the order in
    which pending promises settle) is an explicit argument of the function that asks.
  \<^item> \<open>debug\<close> writes to stderr only when \<open>MCP_DEBUG\<close> is set. The retry engine, the cache
    functions and the units of work are modelled by what they return and do to the
    world, without their calls of \<open>debug\<close>. The two commands are modelled by what they
    write, and there the lines of \<open>debug\<close> are part of the output: the command's own
    message is computed, the messages of the units are an argument of the command.
\<close>

section \<open>Regular expressions as the classifier uses them\<close>

text \<open>
  The classifier tests six regular expression literals. They use literals, \<open>\s\<close>,
  \<open>\b\<close>, \<open>^\<close>, grouping, alternation, \<open>?\<close>, \<open>*\<close> and \<open>+\<close>, with or without the
  \<open>i\<close> flag. \<open>RegExp.prototype.test\<close> only asks whether some match exists, so the
  matcher computes, for a start position, every position at which a match may end;
  greediness and backtracking order do not change the answer.
\<close>

datatype regex =
    Lit string
  | Space
  | WordB
  | Bol
  | Seq regex regex
  | Alt regex regex
  | Opt regex
  | Star regex

definition Plus :: "regex \<Rightarrow> regex" where
  "Plus a = Seq a (Star a)"

text \<open>
  Canonicalisation under the \<open>i\<close> flag (no \<open>u\<close> flag): a character is compared by its
  upper-case form, and a character from 128 up never canonicalises to one below 128. All
  pattern characters here are ASCII, so upper-casing \<open>a\<close>..\<open>z\<close> and leaving every other
  character alone decides the same comparisons.
\<close>

definition canonicalize :: "char \<Rightarrow> char" where
  "canonicalize c =
     (case map_of (zip ''abcdefghijklmnopqrstuvwxyz'' ''ABCDEFGHIJKLMNOPQRSTUVWXYZ'') c of
        Some u \<Rightarrow> u
      | None \<Rightarrow> c)"

text \<open>\<open>\s\<close>: tab, line feed, vertical tab, form feed, carriage return, space, no-break space.\<close>

definition isWhiteSpace :: "char \<Rightarrow> bool" where
  "isWhiteSpace c =
     List.member [CHR 0x09, CHR 0x0A, CHR 0x0B, CHR 0x0C, CHR 0x0D, CHR 0x20, CHR 0xA0] c"

text \<open>The word characters of \<open>\b\<close>: \<open>[A-Za-z0-9_]\<close>.\<close>

definition isWordChar :: "char \<Rightarrow> bool" where
  "isWordChar c =
     List.member
       ''ABCDEFGHIJKLMNOPQRSTUVWXYZabcdefghijklmnopqrstuvwxyz0123456789_'' c"

text \<open>Does the literal \<open>w\<close> stand at the head of \<open>rest\<close>?\<close>

fun startsWith :: "string \<Rightarrow> string \<Rightarrow> bool" where
  "startsWith [] rest = True"
| "startsWith (p # ps) [] = False"
| "startsWith (p # ps) (c # cs) = (if p = c then startsWith ps cs else False)"

definition litAt :: "string \<Rightarrow> string \<Rightarrow> nat \<Rightarrow> bool" where
  "litAt w s i = startsWith w (drop i s)"

definition wordAt :: "string \<Rightarrow> nat \<Rightarrow> bool" where
  "wordAt s i = (i < length s \<and> isWordChar (s ! i))"

definition atWordBoundary :: "string \<Rightarrow> nat \<Rightarrow> bool" where
  "atWordBoundary s i = ((0 < i \<and> wordAt s (i - 1)) \<noteq> wordAt s i)"

text \<open>
  \<open>ends s r i\<close>: the positions where a match of \<open>r\<close> that starts at position \<open>i\<close> of
  \<open>s\<close> may end, characters compared exactly. An iteration of \<open>*\<close> that consumes
  nothing is not repeated.
\<close>

function ends :: "string \<Rightarrow> regex \<Rightarrow> nat \<Rightarrow> nat list" where
  "ends s (Lit w) i = (if litAt w s i then [i + length w] else [])"
| "ends s Space i = (if i < length s \<and> isWhiteSpace (s ! i) then [Suc i] else [])"
| "ends s WordB i = (if atWordBoundary s i then [i] else [])"
| "ends s Bol i = (if i = 0 then [i] else [])"
| "ends s (Seq a b) i = concat (map (ends s b) (ends s a i))"
| "ends s (Alt a b) i = ends s a i @ ends s b i"
| "ends s (Opt a) i = ends s a i @ [i]"
| "ends s (Star a) i =
     i # concat (map (ends s (Star a))
                  (filter (\<lambda>j. i < j \<and> j \<le> length s) (ends s a i)))"
  by pat_completeness auto
termination
proof (relation "measures [\<lambda>(s, r, i). size r, \<lambda>(s, r, i). length s - i]")
  fix s :: string and a :: regex and i x :: nat
  assume "x \<in> set (filter (\<lambda>j. i < j \<and> j \<le> length s) (ends s a i))"
  then have "i < x" and "x \<le> length s" by simp_all
  then have "length s - x < length s - i" by arith
  then show "((s, Star a, x), (s, Star a, i))
    \<in> measures [\<lambda>(s, r, i). size r, \<lambda>(s, r, i). length s - i]"
    by simp
qed simp_all

text \<open>
  Under the \<open>i\<close> flag two characters match when their canonical forms are equal, so
  the pattern's literals and the subject are canonicalised once and then compared
  exactly. Canonicalisation keeps a character inside or outside \<open>\s\<close> and the word
  characters, so \<open>\s\<close> and \<open>\b\<close> read the canonical subject as they read the original.
\<close>

primrec canonicalizeRegex :: "regex \<Rightarrow> regex" where
  "canonicalizeRegex (Lit w) = Lit (map canonicalize w)"
| "canonicalizeRegex Space = Space"
| "canonicalizeRegex WordB = WordB"
| "canonicalizeRegex Bol = Bol"
| "canonicalizeRegex (Seq a b) = Seq (canonicalizeRegex a) (canonicalizeRegex b)"
| "canonicalizeRegex (Alt a b) = Alt (canonicalizeRegex a) (canonicalizeRegex b)"
| "canonicalizeRegex (Opt a) = Opt (canonicalizeRegex a)"
| "canonicalizeRegex (Star a) = Star (canonicalizeRegex a)"

text \<open>A match from some start position, characters compared exactly.\<close>

definition matchesSomewhere :: "regex \<Rightarrow> string \<Rightarrow> bool" where
  "matchesSomewhere r s = list_ex (\<lambda>i. ends s r i \<noteq> []) [0..<Suc (length s)]"

text \<open>\<open>regex.test(s)\<close> for a regex without the \<open>g\<close> and \<open>y\<close> flags; \<open>ignoreCase\<close> is
  the \<open>i\<close> flag.\<close>

definition test :: "bool \<Rightarrow> regex \<Rightarrow> string \<Rightarrow> bool" where
  "test ignoreCase r s =
     (if ignoreCase then matchesSomewhere (canonicalizeRegex r) (map canonicalize s)
      else matchesSomewhere r s)"

section \<open>The transient-error classifier (client.ts)\<close>

text \<open>An \<open>Error\<close> as the classifier reads it: the optional \<open>code\<close> of a Node errno
  exception and the \<open>message\<close>.\<close>

record js_error =
  code :: "string option"
  message :: string

definition transientCodes :: "string list" where
  "transientCodes =
     [''ECONNREFUSED'', ''ECONNRESET'', ''ETIMEDOUT'', ''ENOTFOUND'',
      ''EPIPE'', ''ENETUNREACH'', ''EHOSTUNREACH'', ''EAI_AGAIN'']"

text \<open>\<open>(502|503|504|429)\<close>\<close>

definition statusCodes :: regex where
  "statusCodes = Alt (Lit ''502'') (Alt (Lit ''503'') (Alt (Lit ''504'') (Lit ''429'')))"

text \<open>\<open>/^(502|503|504|429)\b/\<close>\<close>

definition leadingStatus :: regex where
  "leadingStatus = Seq Bol (Seq statusCodes WordB)"

text \<open>\<open>/\b(http|status(\s+code)?)\s*(502|503|504|429)\b/i\<close>\<close>

definition httpContextStatus :: regex where
  "httpContextStatus =
     Seq WordB
       (Seq (Alt (Lit ''http'') (Seq (Lit ''status'') (Opt (Seq (Plus Space) (Lit ''code'')))))
         (Seq (Star Space) (Seq statusCodes WordB)))"

text \<open>\<open>/\b(502|503|504|429)\s+(bad gateway|service unavailable|gateway timeout|too many requests)/i\<close>\<close>

definition statusWithPhrase :: regex where
  "statusWithPhrase =
     Seq WordB
       (Seq statusCodes
         (Seq (Plus Space)
           (Alt (Lit ''bad gateway'')
             (Alt (Lit ''service unavailable'')
               (Alt (Lit ''gateway timeout'') (Lit ''too many requests''))))))"

text \<open>\<open>/network\s*(error|fail|unavailable|timeout)/i\<close>\<close>

definition networkPhrase :: regex where
  "networkPhrase =
     Seq (Lit ''network'')
       (Seq (Star Space)
         (Alt (Lit ''error'') (Alt (Lit ''fail'') (Alt (Lit ''unavailable'') (Lit ''timeout'')))))"

text \<open>\<open>/connection\s*(reset|refused|timeout)/i\<close>\<close>

definition connectionPhrase :: regex where
  "connectionPhrase =
     Seq (Lit ''connection'')
       (Seq (Star Space) (Alt (Lit ''reset'') (Alt (Lit ''refused'') (Lit ''timeout''))))"

text \<open>\<open>/\btimeout\b/i\<close>\<close>

definition timeoutWord :: regex where
  "timeoutWord = Seq WordB (Seq (Lit ''timeout'') WordB)"

text \<open>
  \<open>isTransientError\<close>: a truthy \<open>code\<close> that is one of \<open>transientCodes\<close> decides at once;
  otherwise the message is tested against the six patterns in the source's order.
\<close>

definition isTransientError :: "js_error \<Rightarrow> bool" where
  "isTransientError error =
     (if (case code error of
            Some c \<Rightarrow> c \<noteq> [] \<and> List.member transientCodes c
          | None \<Rightarrow> False)
      then True
      else if test False leadingStatus (message error) then True
      else if test True httpContextStatus (message error) then True
      else if test True statusWithPhrase (message error) then True
      else if test True networkPhrase (message error) then True
      else if test True connectionPhrase (message error) then True
      else if test True timeoutWord (message error) then True
      else False)"

section \<open>Runtime configuration from the environment (config.ts)\<close>

text \<open>\<open>process.env\<close>: a variable is absent or holds a string.\<close>

type_synonym process_env = "string \<rightharpoonup> string"

definition isDigit :: "char \<Rightarrow> bool" where
  "isDigit c = List.member ''0123456789'' c"

definition digitValue :: "char \<Rightarrow> nat" where
  "digitValue c = length (takeWhile (\<lambda>d. d \<noteq> c) ''0123456789'')"

text \<open>
  \<open>Number.parseInt(str, 10)\<close>: leading white space is skipped, one sign is read, then
  the longest run of decimal digits; \<open>None\<close> is \<open>NaN\<close> (no digit there). The value is
  the exact integer; the rounding of integers beyond \<open>2^53\<close> is not modelled.
\<close>

definition parseInt :: "string \<Rightarrow> int option" where
  "parseInt str =
     (let s = dropWhile isWhiteSpace str;
          negative = (s \<noteq> [] \<and> hd s = CHR ''-'');
          signed = (s \<noteq> [] \<and> (hd s = CHR ''-'' \<or> hd s = CHR ''+''));
          digits = takeWhile isDigit (if signed then tl s else s);
          magnitude = int (foldl (\<lambda>n c. 10 * n + digitValue c) 0 digits)
      in if digits = [] then None
         else Some (if negative then - magnitude else magnitude))"

definition DEFAULT_TIMEOUT_SECONDS :: int where
  "DEFAULT_TIMEOUT_SECONDS = 1800"

definition DEFAULT_TIMEOUT_MS :: int where
  "DEFAULT_TIMEOUT_MS = DEFAULT_TIMEOUT_SECONDS * 1000"

definition DEFAULT_CONCURRENCY :: int where
  "DEFAULT_CONCURRENCY = 5"

definition DEFAULT_MAX_RETRIES :: int where
  "DEFAULT_MAX_RETRIES = 3"

definition DEFAULT_RETRY_DELAY_MS :: int where
  "DEFAULT_RETRY_DELAY_MS = 1000"

text \<open>
  The four getters share one shape: an unset or empty variable, a value \<open>parseInt\<close>
  cannot read, and a value outside the accepted range all give the default.
\<close>

definition getTimeoutMs :: "process_env \<Rightarrow> int" where
  "getTimeoutMs env =
     (case env ''MCP_TIMEOUT'' of
        None \<Rightarrow> DEFAULT_TIMEOUT_MS
      | Some envTimeout \<Rightarrow>
          if envTimeout = [] then DEFAULT_TIMEOUT_MS
          else (case parseInt envTimeout of
                  None \<Rightarrow> DEFAULT_TIMEOUT_MS
                | Some seconds \<Rightarrow> if 0 < seconds then seconds * 1000 else DEFAULT_TIMEOUT_MS))"

definition getConcurrencyLimit :: "process_env \<Rightarrow> int" where
  "getConcurrencyLimit env =
     (case env ''MCP_CONCURRENCY'' of
        None \<Rightarrow> DEFAULT_CONCURRENCY
      | Some envConcurrency \<Rightarrow>
          if envConcurrency = [] then DEFAULT_CONCURRENCY
          else (case parseInt envConcurrency of
                  None \<Rightarrow> DEFAULT_CONCURRENCY
                | Some limit \<Rightarrow> if 0 < limit then limit else DEFAULT_CONCURRENCY))"

definition getMaxRetries :: "process_env \<Rightarrow> int" where
  "getMaxRetries env =
     (case env ''MCP_MAX_RETRIES'' of
        None \<Rightarrow> DEFAULT_MAX_RETRIES
      | Some envRetries \<Rightarrow>
          if envRetries = [] then DEFAULT_MAX_RETRIES
          else (case parseInt envRetries of
                  None \<Rightarrow> DEFAULT_MAX_RETRIES
                | Some retries \<Rightarrow> if 0 \<le> retries then retries else DEFAULT_MAX_RETRIES))"

definition getRetryDelayMs :: "process_env \<Rightarrow> int" where
  "getRetryDelayMs env =
     (case env ''MCP_RETRY_DELAY'' of
        None \<Rightarrow> DEFAULT_RETRY_DELAY_MS
      | Some envDelay \<Rightarrow>
          if envDelay = [] then DEFAULT_RETRY_DELAY_MS
          else (case parseInt envDelay of
                  None \<Rightarrow> DEFAULT_RETRY_DELAY_MS
                | Some delay \<Rightarrow> if 0 < delay then delay else DEFAULT_RETRY_DELAY_MS))"

section \<open>The retry engine (client.ts)\<close>

text \<open>Durations and clock readings are milliseconds, as real numbers.\<close>

record RetryConfig =
  maxRetries :: int
  baseDelayMs :: real
  maxDelayMs :: real
  totalBudgetMs :: real

definition getRetryConfig :: "process_env \<Rightarrow> RetryConfig" where
  "getRetryConfig env =
     (let totalBudgetMs = real_of_int (getTimeoutMs env);
          maxRetries = getMaxRetries env;
          baseDelayMs = real_of_int (getRetryDelayMs env);
          retryBudgetMs = max 0 (totalBudgetMs - 5000)
      in \<lparr>maxRetries = maxRetries,
          baseDelayMs = baseDelayMs,
          maxDelayMs = min 10000 (retryBudgetMs / 2),
          totalBudgetMs = totalBudgetMs\<rparr>)"

text \<open>\<open>Math.round\<close>: the nearest integer, a half rounded up.\<close>

definition Math_round :: "real \<Rightarrow> real" where
  "Math_round x = of_int \<lfloor>x + 1 / 2\<rfloor>"

text \<open>\<open>calculateDelay\<close>; \<open>random\<close> is what \<open>Math.random()\<close> returns in this call.\<close>

definition calculateDelay :: "nat \<Rightarrow> RetryConfig \<Rightarrow> real \<Rightarrow> real" where
  "calculateDelay attempt config random =
     (let exponentialDelay = baseDelayMs config * 2 ^ attempt;
          cappedDelay = min exponentialDelay (maxDelayMs config);
          jitter = cappedDelay * 0.25 * (random * 2 - 1)
      in Math_round (cappedDelay + jitter))"

text \<open>
  What the world answers while \<open>withRetry\<close> runs, indexed by the attempt number (the
  loop invokes \<open>fn\<close> at most once per attempt):
  \<^item> \<open>fn_settles k\<close>: how the promise returned by \<open>fn()\<close> in attempt \<open>k\<close> settles;
  \<^item> \<open>fn_takes k\<close>: the time that call takes;
  \<^item> \<open>math_random k\<close>: the value of \<open>Math.random()\<close> in \<open>calculateDelay\<close> after attempt \<open>k\<close>;
  \<^item> \<open>sleep_takes k d\<close>: the time \<open>sleep(d)\<close> takes after attempt \<open>k\<close>.
  Synchronous code takes no time.
\<close>

record 'a retry_world =
  fn_settles :: "nat \<Rightarrow> js_error + 'a"
  fn_takes :: "nat \<Rightarrow> real"
  math_random :: "nat \<Rightarrow> real"
  sleep_takes :: "nat \<Rightarrow> real \<Rightarrow> real"

text \<open>
  What an observer sees of one \<open>withRetry\<close> call: how its promise settles
  (\<open>Inl None\<close> is \<open>throw lastError\<close> with \<open>lastError\<close> still undefined), how often
  \<open>fn\<close> was invoked, and the delays passed to \<open>sleep\<close>, oldest first.
\<close>

record 'a retry_run =
  settled :: "js_error option + 'a"
  invocations :: nat
  sleeps :: "real list"

text \<open>
  The \<open>for\<close> loop of \<open>withRetry\<close>, entered at \<open>attempt\<close>. \<open>elapsed\<close> is
  \<open>Date.now() - startTime\<close> at that moment.
\<close>

function withRetry_loop ::
  "RetryConfig \<Rightarrow> 'a retry_world \<Rightarrow> nat \<Rightarrow> js_error option \<Rightarrow> real \<Rightarrow> nat \<Rightarrow> real list
     \<Rightarrow> 'a retry_run"
where
  "withRetry_loop config world attempt lastError elapsed calls slept =
     (if int attempt \<le> maxRetries config then
        if totalBudgetMs config \<le> elapsed then
          \<lparr>settled = Inl lastError, invocations = calls, sleeps = slept\<rparr>
        else
          (case fn_settles world attempt of
             Inr result \<Rightarrow>
               \<lparr>settled = Inr result, invocations = Suc calls, sleeps = slept\<rparr>
           | Inl error \<Rightarrow>
               let afterCall = elapsed + fn_takes world attempt;
                   remainingBudget = totalBudgetMs config - afterCall;
                   shouldRetry =
                     (int attempt < maxRetries config \<and> isTransientError error
                        \<and> 1000 < remainingBudget)
               in if shouldRetry then
                    let delay = min (calculateDelay attempt config (math_random world attempt))
                                    (remainingBudget - 1000)
                    in withRetry_loop config world (Suc attempt) (Some error)
                         (afterCall + sleep_takes world attempt delay) (Suc calls)
                         (slept @ [delay])
                  else
                    \<lparr>settled = Inl (Some error), invocations = Suc calls, sleeps = slept\<rparr>)
      else \<lparr>settled = Inl lastError, invocations = calls, sleeps = slept\<rparr>)"
  by pat_completeness auto
termination
  by (relation "measure (\<lambda>(config, world, attempt, lastError, elapsed, calls, slept).
        nat (maxRetries config + 1 - int attempt))") auto

definition withRetry :: "RetryConfig \<Rightarrow> 'a retry_world \<Rightarrow> 'a retry_run" where
  "withRetry config world = withRetry_loop config world 0 None 0 0 []"

declare withRetry_loop.simps [simp del]

text \<open>An operation that is refused at every attempt, with an error \<open>code\<close> the classifier
  knows as transient; each attempt takes 20 ms and a sleep takes as long as asked.\<close>

definition refusedConnection :: js_error where
  "refusedConnection =
     \<lparr>code = Some ''ECONNREFUSED'', message = ''connect ECONNREFUSED 127.0.0.1:3000''\<rparr>"

definition alwaysRefused :: "unit retry_world" where
  "alwaysRefused =
     \<lparr>fn_settles = (\<lambda>k. Inl refusedConnection),
      fn_takes = (\<lambda>k. 20),
      math_random = (\<lambda>k. 1 / 2),
      sleep_takes = (\<lambda>k delay. delay)\<rparr>"

text \<open>An operation that fails at every attempt with an error the classifier does not
  take for transient.\<close>

definition invalidJson :: js_error where
  "invalidJson = \<lparr>code = None, message = ''Invalid JSON''\<rparr>"

definition alwaysInvalid :: "unit retry_world" where
  "alwaysInvalid =
     \<lparr>fn_settles = (\<lambda>k. Inl invalidJson),
      fn_takes = (\<lambda>k. 20),
      math_random = (\<lambda>k. 1 / 2),
      sleep_takes = (\<lambda>k delay. delay)\<rparr>"

section \<open>The bounded worker pool (commands/list.ts and commands/grep.ts)\<close>

text \<open>
  Both command files define the same \<open>processWithConcurrency\<close>. Its workers are
  coroutines on one thread: a worker runs from its loop test to the \<open>await\<close> without
  interruption, and is resumed when the promise it awaits settles. A worker is
  therefore in one of three states.
\<close>

datatype worker = Unstarted | Awaiting nat | Finished

text \<open>
  The variables the workers share: the \<open>results\<close> array (\<open>new Array(n)\<close>, every slot
  empty), \<open>currentIndex\<close>, and the workers themselves. \<open>assignments\<close> counts, per
  slot, how often \<open>results[index] = ...\<close> has run; the program does not keep this
  count, it is there to state that a slot is filled once.
\<close>

record 'r pool =
  results :: "'r option list"
  currentIndex :: nat
  workers :: "worker list"
  assignments :: "nat list"

definition isAwaiting :: "worker \<Rightarrow> bool" where
  "isAwaiting w = (case w of Awaiting index \<Rightarrow> True | _ \<Rightarrow> False)"

text \<open>The workers whose awaited promise has not settled yet, by number.\<close>

definition pending :: "'r pool \<Rightarrow> nat list" where
  "pending p = filter (\<lambda>w. isAwaiting (workers p ! w)) [0..<length (workers p)]"

text \<open>
  Worker \<open>w\<close> from its loop test \<open>currentIndex < items.length\<close> to its next \<open>await\<close>:
  it claims \<open>index = currentIndex++\<close> and calls the processor, or leaves the loop.
  \<open>n\<close> is \<open>items.length\<close>.
\<close>

definition worker_advance :: "nat \<Rightarrow> nat \<Rightarrow> 'r pool \<Rightarrow> 'r pool" where
  "worker_advance n w p =
     (if currentIndex p < n
      then p\<lparr>currentIndex := Suc (currentIndex p),
             workers := (workers p)[w := Awaiting (currentIndex p)]\<rparr>
      else p\<lparr>workers := (workers p)[w := Finished]\<rparr>)"

text \<open>The assignment \<open>results[index] = value\<close>.\<close>

definition assign_result :: "nat \<Rightarrow> 'r \<Rightarrow> 'r pool \<Rightarrow> 'r pool" where
  "assign_result index v p =
     p\<lparr>results := (results p)[index := Some v],
       assignments := (assignments p)[index := Suc (assignments p ! index)]\<rparr>"

text \<open>\<open>Array.from({length: k}, () => worker())\<close>: the \<open>k\<close> workers are started one after
  the other, each running to its first \<open>await\<close>.\<close>

definition start_workers :: "nat \<Rightarrow> nat \<Rightarrow> 'r pool" where
  "start_workers n k =
     foldl (\<lambda>p w. worker_advance n w p)
       \<lparr>results = replicate n None, currentIndex = 0,
        workers = replicate k Unstarted, assignments = replicate n 0\<rparr>
       [0..<k]"

lemma filter_isAwaiting_finish:
  "w < length ws \<Longrightarrow> isAwaiting (ws ! w) \<Longrightarrow>
     length (filter isAwaiting (ws[w := Finished])) < length (filter isAwaiting ws)"
proof (induction ws arbitrary: w)
  case Nil
  then show ?case by simp
next
  case (Cons a ws)
  show ?case
  proof (cases w)
    case 0
    with Cons.prems show ?thesis by (simp add: isAwaiting_def)
  next
    case (Suc v)
    with Cons show ?thesis by simp
  qed
qed

lemma filter_isAwaiting_claim:
  "w < length ws \<Longrightarrow> isAwaiting (ws ! w) \<Longrightarrow>
     length (filter isAwaiting (ws[w := Awaiting j])) = length (filter isAwaiting ws)"
proof (induction ws arbitrary: w)
  case Nil
  then show ?case by simp
next
  case (Cons a ws)
  show ?case
  proof (cases w)
    case 0
    with Cons.prems show ?thesis by (simp add: isAwaiting_def)
  next
    case (Suc v)
    with Cons show ?thesis by simp
  qed
qed

lemma pending_member:
  "w \<in> set (pending p) \<longleftrightarrow> w < length (workers p) \<and> isAwaiting (workers p ! w)"
  by (auto simp: pending_def)

text \<open>What is left to do: the items not yet claimed and the promises not yet settled.\<close>

definition remaining_work :: "nat \<Rightarrow> 'r pool \<Rightarrow> nat" where
  "remaining_work n p = (n - currentIndex p) + length (filter isAwaiting (workers p))"

lemma remaining_work_decreases:
  assumes "w \<in> set (pending p)"
  shows "remaining_work n (worker_advance n w (assign_result index v p)) < remaining_work n p"
proof -
  from assms have w: "w < length (workers p)" "isAwaiting (workers p ! w)"
    by (simp_all add: pending_member)
  show ?thesis
  proof (cases "currentIndex p < n")
    case True
    with filter_isAwaiting_claim [OF w, of "currentIndex p"] show ?thesis
      by (simp add: remaining_work_def worker_advance_def assign_result_def)
  next
    case False
    with filter_isAwaiting_finish [OF w] show ?thesis
      by (simp add: remaining_work_def worker_advance_def assign_result_def)
  qed
qed

text \<open>
  \<open>await Promise.all(workers)\<close>. While some worker awaits, one of the pending promises
  settles next; which one is not up to the program: \<open>order step\<close> picks it among the
  pending workers at step \<open>step\<close>. If the processor's promise resolves, the worker
  stores the value and goes on; if it rejects, the worker's own promise rejects and
  so does \<open>Promise.all\<close>, with that reason. When no worker awaits any more,
  \<open>Promise.all\<close> resolves.
\<close>

function drain ::
  "(nat \<Rightarrow> nat) \<Rightarrow> 't list \<Rightarrow> ('t \<Rightarrow> nat \<Rightarrow> 'e + 'r) \<Rightarrow> nat \<Rightarrow> 'r pool \<Rightarrow> 'e + 'r pool"
where
  "drain order items processor step p =
     (if pending p = [] then Inr p
      else
        let w = pending p ! (order step mod length (pending p)) in
        (case workers p ! w of
           Awaiting index \<Rightarrow>
             (case processor (items ! index) index of
                Inl reason \<Rightarrow> Inl reason
              | Inr v \<Rightarrow>
                  drain order items processor (Suc step)
                    (worker_advance (length items) w (assign_result index v p)))
         | _ \<Rightarrow> Inr p))"
  by pat_completeness auto
termination
proof (relation "measure (\<lambda>(order, items, processor, step, p). remaining_work (length items) p)")
  fix order :: "nat \<Rightarrow> nat" and items :: "'t list" and processor :: "'t \<Rightarrow> nat \<Rightarrow> 'e + 'r"
    and step :: nat and p :: "'r pool" and w index :: nat and v :: 'r
  assume nonempty: "pending p \<noteq> []"
    and w: "w = pending p ! (order step mod length (pending p))"
  from nonempty have "order step mod length (pending p) < length (pending p)"
    by simp
  with w have "w \<in> set (pending p)"
    by simp
  then show "((order, items, processor, Suc step,
               worker_advance (length items) w (assign_result index v p)),
              (order, items, processor, step, p))
      \<in> measure (\<lambda>(order, items, processor, step, p). remaining_work (length items) p)"
    by (simp add: remaining_work_decreases)
qed simp

declare drain.simps [simp del]

definition runPool ::
  "(nat \<Rightarrow> nat) \<Rightarrow> 't list \<Rightarrow> ('t \<Rightarrow> nat \<Rightarrow> 'e + 'r) \<Rightarrow> nat \<Rightarrow> 'e + 'r pool"
where
  "runPool order items processor maxConcurrency =
     drain order items processor 0
       (start_workers (length items) (min maxConcurrency (length items)))"

text \<open>\<open>processWithConcurrency\<close> returns the \<open>results\<close> array; a slot never assigned is
  still \<open>None\<close> in it.\<close>

definition processWithConcurrency ::
  "(nat \<Rightarrow> nat) \<Rightarrow> 't list \<Rightarrow> ('t \<Rightarrow> nat \<Rightarrow> 'e + 'r) \<Rightarrow> nat \<Rightarrow> 'e + 'r option list"
where
  "processWithConcurrency order items processor maxConcurrency =
     (case runPool order items processor maxConcurrency of
        Inl reason \<Rightarrow> Inl reason
      | Inr p \<Rightarrow> Inr (results p))"

text \<open>
  The invariant of the pool, for a processor that resolves with \<open>f index\<close> on item
  \<open>index\<close>: indices are claimed in order; an index claimed by a worker that still awaits
  has an empty, never assigned slot; an index claimed and no longer awaited holds its
  value and was assigned once; no two workers await the same index; a worker has
  finished only if no index is left.
\<close>

definition inFlight :: "'r pool \<Rightarrow> nat \<Rightarrow> bool" where
  "inFlight p i = (\<exists>w<length (workers p). workers p ! w = Awaiting i)"

definition pool_inv :: "nat \<Rightarrow> (nat \<Rightarrow> 'r) \<Rightarrow> 'r pool \<Rightarrow> bool" where
  "pool_inv n f p \<longleftrightarrow>
     length (pool.results p) = n \<and> length (assignments p) = n \<and> currentIndex p \<le> n \<and>
     (\<forall>w<length (workers p). workers p ! w \<noteq> Unstarted) \<and>
     (\<forall>w<length (workers p). \<forall>i. workers p ! w = Awaiting i \<longrightarrow> i < currentIndex p) \<and>
     (\<forall>w<length (workers p). workers p ! w = Finished \<longrightarrow> currentIndex p = n) \<and>
     (\<forall>w<length (workers p). \<forall>w'<length (workers p). \<forall>i.
        workers p ! w = Awaiting i \<and> workers p ! w' = Awaiting i \<longrightarrow> w = w') \<and>
     (\<forall>i<n. if i < currentIndex p \<and> \<not> inFlight p i
            then pool.results p ! i = Some (f i) \<and> assignments p ! i = 1
            else pool.results p ! i = None \<and> assignments p ! i = 0)"

section \<open>The tool-list cache (cache.ts)\<close>

text \<open>A JSON document, for the \<open>inputSchema\<close> of a tool.\<close>

datatype json =
    JNull
  | JBool bool
  | JNumber real
  | JString string
  | JArray "json list"
  | JObject "(string \<times> json) list"

text \<open>\<open>ToolInfo\<close> (client.ts). An absent \<open>description\<close> and one that is \<open>undefined\<close>
  are both \<open>None\<close>.\<close>

record ToolInfo =
  name :: string
  description :: "string option"
  inputSchema :: "(string \<times> json) list"

text \<open>\<open>CachedToolList\<close>, the persisted entry. A field of a record is a constant of the
  theory, so a variable of the source that has the name of a field carries a prime:
  \<open>serverName'\<close>, \<open>tools'\<close>.\<close>

record CachedToolList =
  serverName :: string
  tools :: "ToolInfo list"
  timestamp :: real
  version :: real

definition CACHE_VERSION :: real where
  "CACHE_VERSION = 1"

definition DEFAULT_CACHE_TTL_SECONDS :: int where
  "DEFAULT_CACHE_TTL_SECONDS = 3600"

text \<open>
  \<open>JSON.stringify\<close> and \<open>JSON.parse\<close> belong to the runtime, not to this program; the
  cache functions take them as a parameter. \<open>JSON_parse\<close> is read at the type the code
  casts its result to (\<open>const cached: CachedToolList = JSON.parse(content)\<close>); \<open>None\<close>
  is a \<open>SyntaxError\<close>. A text that parses to a value of another shape is outside the
  embedding.
\<close>

record json_runtime =
  JSON_stringify :: "CachedToolList \<Rightarrow> string"
  JSON_parse :: "string \<Rightarrow> CachedToolList option"

text \<open>
  The part of the machine the cache touches: the environment variables, the home
  directory, the files (path to content) and directories that exist, the paths on
  which an operation of the file system fails (\<open>io_fault\<close>), and the clock
  (\<open>Date.now()\<close>, in milliseconds).
\<close>

record world =
  process_env :: process_env
  homedir :: string
  files :: "string \<rightharpoonup> string"
  directories :: "string \<Rightarrow> bool"
  io_fault :: "string \<Rightarrow> bool"
  now :: real

text \<open>\<open>String.prototype.toLowerCase\<close> on the letters \<open>A\<close>..\<open>Z\<close>; the comparisons below are
  with ASCII words, which no other character lower-cases into.\<close>

definition toLowerCase :: "string \<Rightarrow> string" where
  "toLowerCase s =
     map (\<lambda>c. case map_of (zip ''ABCDEFGHIJKLMNOPQRSTUVWXYZ'' ''abcdefghijklmnopqrstuvwxyz'') c of
               Some l \<Rightarrow> l
             | None \<Rightarrow> c) s"

definition getCacheTTLMs :: "process_env \<Rightarrow> real" where
  "getCacheTTLMs env =
     (case env ''MCP_CACHE_TTL'' of
        None \<Rightarrow> real_of_int (DEFAULT_CACHE_TTL_SECONDS * 1000)
      | Some envTTL \<Rightarrow>
          if envTTL = [] then real_of_int (DEFAULT_CACHE_TTL_SECONDS * 1000)
          else (case parseInt envTTL of
                  None \<Rightarrow> real_of_int (DEFAULT_CACHE_TTL_SECONDS * 1000)
                | Some seconds \<Rightarrow>
                    if 0 < seconds then real_of_int (seconds * 1000)
                    else real_of_int (DEFAULT_CACHE_TTL_SECONDS * 1000)))"

definition isCacheDisabled :: "process_env \<Rightarrow> bool" where
  "isCacheDisabled env =
     (case env ''MCP_NO_CACHE'' of
        None \<Rightarrow> False
      | Some v \<Rightarrow> toLowerCase v = ''true'' \<or> toLowerCase v = ''1'')"

text \<open>\<open>path.join\<close> on segments that need no normalisation.\<close>

definition path_join :: "string list \<Rightarrow> string" where
  "path_join segments = foldr (\<lambda>segment rest. if rest = [] then segment else segment @ ''/'' @ rest) segments []"

definition getCacheDir :: "world \<Rightarrow> string" where
  "getCacheDir w = path_join [homedir w, ''.cache'', ''mcp-cli'']"

text \<open>\<open>serverName.replace(/[^a-z0-9_-]/gi, '_')\<close>: every character outside the class
  becomes an underscore.\<close>

definition isSafeChar :: "char \<Rightarrow> bool" where
  "isSafeChar c =
     List.member
       ''abcdefghijklmnopqrstuvwxyzABCDEFGHIJKLMNOPQRSTUVWXYZ0123456789_-'' c"

definition getCacheFilePath :: "world \<Rightarrow> string \<Rightarrow> string" where
  "getCacheFilePath w serverName' =
     (let safeName = map (\<lambda>c. if isSafeChar c then c else CHR ''_'') serverName'
      in path_join [getCacheDir w, safeName @ ''.json''])"

text \<open>The file system calls. \<open>existsSync\<close> never throws; the others throw on a faulty
  path, and reading throws when there is no such file.\<close>

definition existsSync :: "world \<Rightarrow> string \<Rightarrow> bool" where
  "existsSync w path = (files w path \<noteq> None \<or> directories w path)"

definition ioError :: "string \<Rightarrow> js_error" where
  "ioError path = \<lparr>code = Some ''EACCES'', message = ''EACCES: permission denied, '' @ path\<rparr>"

definition noSuchFile :: "string \<Rightarrow> js_error" where
  "noSuchFile path = \<lparr>code = Some ''ENOENT'', message = ''ENOENT: no such file or directory, '' @ path\<rparr>"

definition mkdirSync :: "world \<Rightarrow> string \<Rightarrow> js_error + world" where
  "mkdirSync w path =
     (if io_fault w path then Inl (ioError path)
      else Inr (w\<lparr>directories := (directories w)(path := True)\<rparr>))"

definition Bun_file_text :: "world \<Rightarrow> string \<Rightarrow> js_error + string" where
  "Bun_file_text w path =
     (if io_fault w path then Inl (ioError path)
      else case files w path of
             None \<Rightarrow> Inl (noSuchFile path)
           | Some content \<Rightarrow> Inr content)"

definition Bun_write :: "world \<Rightarrow> string \<Rightarrow> string \<Rightarrow> js_error + world" where
  "Bun_write w path content =
     (if io_fault w path then Inl (ioError path)
      else Inr (w\<lparr>files := (files w)(path \<mapsto> content)\<rparr>))"

definition ensureCacheDir :: "world \<Rightarrow> js_error + world" where
  "ensureCacheDir w =
     (let cacheDir = getCacheDir w
      in if \<not> existsSync w cacheDir then mkdirSync w cacheDir else Inr w)"

text \<open>
  \<open>getCachedToolList\<close>. \<open>Inr None\<close> is the returned \<open>null\<close>; an \<open>Inl\<close> would be an
  exception leaving the function. The two \<open>Inr None\<close> under \<open>Inl error\<close> and under
  \<open>None\<close> are the \<open>catch\<close> block, reached from a failed read and from a
  \<open>SyntaxError\<close>.
\<close>

definition getCachedToolList ::
  "json_runtime \<Rightarrow> world \<Rightarrow> string \<Rightarrow> js_error + ToolInfo list option"
where
  "getCachedToolList rt w serverName' =
     (if isCacheDisabled (process_env w) then Inr None
      else
        let cacheFile = getCacheFilePath w serverName' in
        if \<not> existsSync w cacheFile then Inr None
        else
          (case Bun_file_text w cacheFile of
             Inl error \<Rightarrow> Inr None
           | Inr content \<Rightarrow>
               (case JSON_parse rt content of
                  None \<Rightarrow> Inr None
                | Some cached \<Rightarrow>
                    if version cached \<noteq> CACHE_VERSION then Inr None
                    else
                      let age = now w - timestamp cached;
                          ttl = getCacheTTLMs (process_env w)
                      in if ttl < age then Inr None else Inr (Some (tools cached)))))"

text \<open>
  \<open>setCachedToolList\<close> returns nothing; the result is the world it leaves. In the
  \<open>catch\<close> block the world is as the failed step left it.
\<close>

definition setCachedToolList ::
  "json_runtime \<Rightarrow> world \<Rightarrow> string \<Rightarrow> ToolInfo list \<Rightarrow> js_error + world"
where
  "setCachedToolList rt w serverName' tools' =
     (if isCacheDisabled (process_env w) then Inr w
      else
        (case ensureCacheDir w of
           Inl error \<Rightarrow> Inr w
         | Inr w1 \<Rightarrow>
             let cached = \<lparr>serverName = serverName', tools = tools',
                            timestamp = now w1, version = CACHE_VERSION\<rparr>;
                 cacheFile = getCacheFilePath w1 serverName'
             in (case Bun_write w1 cacheFile (JSON_stringify rt cached) of
                   Inl error \<Rightarrow> Inr w1
                 | Inr w2 \<Rightarrow> Inr w2)))"

subsection \<open>A home directory with one cached server\<close>

definition githubTools :: "ToolInfo list" where
  "githubTools = [\<lparr>name = ''search'', description = None, inputSchema = []\<rparr>]"

text \<open>The entry for \<open>github\<close> written at the instant \<open>1705536000000\<close>, and the text
  \<open>JSON.stringify(cached, null, 2)\<close> prints for it.\<close>

definition githubEntry :: CachedToolList where
  "githubEntry =
     \<lparr>serverName = ''github'', tools = githubTools, timestamp = 1705536000000, version = 1\<rparr>"

definition githubText :: string where
  \<open>githubText =
     ''{\<newline>  "serverName": "github",\<newline>  "tools": [\<newline>    {\<newline>      "name": "search",\<newline>      "inputSchema": {}\<newline>    }\<newline>  ],\<newline>  "timestamp": 1705536000000,\<newline>  "version": 1\<newline>}''\<close>

text \<open>The same entry as a program with format version 999 would have written it.\<close>

definition foreignEntry :: CachedToolList where
  "foreignEntry = githubEntry\<lparr>version := 999\<rparr>"

definition foreignText :: string where
  \<open>foreignText =
     ''{\<newline>  "serverName": "github",\<newline>  "tools": [\<newline>    {\<newline>      "name": "search",\<newline>      "inputSchema": {}\<newline>    }\<newline>  ],\<newline>  "timestamp": 1705536000000,\<newline>  "version": 999\<newline>}''\<close>

text \<open>
  A fragment of the runtime's JSON functions: the two entries above and their texts.
  Every other text is a \<open>SyntaxError\<close> here; it is used for texts that are not JSON.
\<close>

definition fragmentOfJSON :: json_runtime where
  "fragmentOfJSON =
     \<lparr>JSON_stringify =
        (\<lambda>cached. if cached = githubEntry then githubText
                   else if cached = foreignEntry then foreignText
                   else ''null''),
      JSON_parse =
        (\<lambda>content. if content = githubText then Some githubEntry
                    else if content = foreignText then Some foreignEntry
                    else None)\<rparr>"

text \<open>A home directory without a cache, at the instant \<open>1705536000000\<close>.\<close>

definition freshHome :: world where
  "freshHome =
     \<lparr>process_env = Map.empty,
      homedir = ''/home/dev'',
      files = Map.empty,
      directories = (\<lambda>path. path = ''/home/dev''),
      io_fault = (\<lambda>path. False),
      now = 1705536000000\<rparr>"

text \<open>The same home one minute after \<open>github\<close>'s tool list was cached; \<open>content\<close> is the
  text of the cache file.\<close>

definition cachedHome :: "string \<Rightarrow> world" where
  "cachedHome content =
     \<lparr>process_env = Map.empty,
      homedir = ''/home/dev'',
      files = [''/home/dev/.cache/mcp-cli/github.json'' \<mapsto> content],
      directories = (\<lambda>path. path = ''/home/dev'' \<or> path = ''/home/dev/.cache/mcp-cli''),
      io_fault = (\<lambda>path. False),
      now = 1705536060000\<rparr>"


subsection \<open>A server name too long for a file name\<close>







section \<open>The list and grep commands (commands/list.ts, commands/grep.ts)\<close>

subsection \<open>What the commands use of config.ts and errors.ts\<close>

datatype ServerConfig = StdioServerConfig string | HttpServerConfig string

text \<open>\<open>mcpServers\<close> lists the entries of the object in the order of \<open>Object.keys\<close>.\<close>

record McpServersConfig =
  mcpServers :: "(string \<times> ServerConfig) list"

definition listServerNames :: "McpServersConfig \<Rightarrow> string list" where
  "listServerNames config = map fst (mcpServers config)"

text \<open>\<open>Array.prototype.join\<close>.\<close>

fun joinWith :: "string \<Rightarrow> string list \<Rightarrow> string" where
  "joinWith separator [] = []"
| "joinWith separator [x] = x"
| "joinWith separator (x # y # ys) = x @ separator @ joinWith separator (y # ys)"

text \<open>\<open>formatCliError\<close>, given the \<open>type\<close>, \<open>message\<close>, \<open>details\<close> and \<open>suggestion\<close> of
  the error; an empty \<open>details\<close> or \<open>suggestion\<close> is falsy and prints nothing.\<close>

definition formatCliError :: "string \<Rightarrow> string \<Rightarrow> string option \<Rightarrow> string option \<Rightarrow> string" where
  "formatCliError kind text details suggestion =
     joinWith [CHR 0x0A]
       ([''Error ['' @ kind @ '']: '' @ text]
        @ (case details of
             Some d \<Rightarrow> if d \<noteq> [] then [''  Details: '' @ d] else []
           | None \<Rightarrow> [])
        @ (case suggestion of
             Some s \<Rightarrow> if s \<noteq> [] then [''  Suggestion: '' @ s] else []
           | None \<Rightarrow> []))"

text \<open>\<open>formatCliError(serverNotFoundError(serverName, available))\<close>.\<close>

definition serverNotFoundText :: "string \<Rightarrow> string list \<Rightarrow> string" where
  "serverNotFoundText serverName' available =
     (let availableList = (if available \<noteq> [] then joinWith '', '' available else ''(none)'')
      in formatCliError ''SERVER_NOT_FOUND''
           (''Server '' @ [CHR 0x22] @ serverName' @ [CHR 0x22] @ '' not found in config'')
           (Some (''Available servers: '' @ availableList))
           (Some (if available \<noteq> []
                  then ''Use one of: '' @ joinWith '', '' (map (\<lambda>s. ''mcp-cli '' @ s) available)
                  else ''Add server to mcp_servers.json: { '' @ [CHR 0x22] @ ''mcpServers''
                       @ [CHR 0x22] @ '': { '' @ [CHR 0x22] @ serverName' @ [CHR 0x22]
                       @ '': { ... } } }'')))"

definition getServerConfig :: "McpServersConfig \<Rightarrow> string \<Rightarrow> js_error + ServerConfig" where
  "getServerConfig config serverName' =
     (case map_of (mcpServers config) serverName' of
        None \<Rightarrow>
          Inl \<lparr>code = None,
               message = serverNotFoundText serverName' (map fst (mcpServers config))\<rparr>
      | Some server \<Rightarrow> Inr server)"

subsection \<open>The servers\<close>

text \<open>
  How the servers answer in one run of a command. \<open>connectToServer\<close> and \<open>listTools\<close>
  are the functions of client.ts, each a \<open>withRetry\<close> around a call of the protocol
  library; here they are given by how their promises settle. A connected client is
  known by the name of its server.
\<close>

record network =
  connectToServer :: "string \<Rightarrow> ServerConfig \<Rightarrow> js_error + unit"
  listTools :: "string \<Rightarrow> js_error + ToolInfo list"

text \<open>What a unit of work does to the world outside the process, in order.\<close>

datatype action =
    CacheLookup string
  | Connect string
  | ListTools string
  | CacheStore string
  | Close string

text \<open>What a command writes and does, in order: lines on the two streams, an exit with a
  status, or a rejection nobody handles.\<close>

datatype event = Stdout string | Stderr string | Exit nat | Uncaught js_error

definition CLIENT_ERROR :: nat where
  "CLIENT_ERROR = 1"

text \<open>A string option as a condition: \<open>undefined\<close> and the empty string are falsy.\<close>

definition truthy :: "string option \<Rightarrow> bool" where
  "truthy s = (case s of None \<Rightarrow> False | Some text \<Rightarrow> text \<noteq> [])"

text \<open>\<open>debug\<close> (config.ts): the message goes to stderr when \<open>MCP_DEBUG\<close> is set to a string
  that is not empty.\<close>

definition debug :: "process_env \<Rightarrow> string \<Rightarrow> event list" where
  "debug env message' =
     (if truthy (env ''MCP_DEBUG'') then [Stderr (''[mcp-cli] '' @ message')] else [])"

text \<open>
  \<open>Array.prototype.sort\<close> with a comparator. The sort is stable, and with a consistent
  comparator its result is the one stable arrangement in which no element is followed
  by a smaller one; inserting the elements from the right, each before the first
  element it does not exceed, computes that arrangement.
\<close>

fun insertBy :: "('a \<Rightarrow> 'a \<Rightarrow> int) \<Rightarrow> 'a \<Rightarrow> 'a list \<Rightarrow> 'a list" where
  "insertBy compare x [] = [x]"
| "insertBy compare x (y # ys) =
     (if compare x y \<le> 0 then x # y # ys else y # insertBy compare x ys)"

definition sortBy :: "('a \<Rightarrow> 'a \<Rightarrow> int) \<Rightarrow> 'a list \<Rightarrow> 'a list" where
  "sortBy compare xs = foldr (insertBy compare) xs []"

text \<open>
  The functions of output.ts and the pattern compiler are outside the core; the
  commands take them as parameters. \<open>formatJson\<close> is split by the type of its argument.
\<close>

record formatters =
  formatServerList :: "(string \<times> ToolInfo list) list \<Rightarrow> bool \<Rightarrow> string"
  formatJson_servers :: "(string \<times> ToolInfo list \<times> string option) list \<Rightarrow> string"
  formatSearchResults :: "(string \<times> ToolInfo) list \<Rightarrow> bool \<Rightarrow> string"
  formatJson_results :: "(string \<times> ToolInfo) list \<Rightarrow> string"

text \<open>\<open>String(n)\<close> for the length of an array.\<close>

fun decimal :: "nat \<Rightarrow> string" where
  "decimal n =
     (if n < 10 then [''0123456789'' ! n]
      else decimal (n div 10) @ [''0123456789'' ! (n mod 10)])"

declare decimal.simps [simp del]

subsection \<open>list\<close>

record ListOptions =
  withDescriptions :: bool
  json :: bool

record ServerWithTools =
  name :: string
  tools :: "ToolInfo list"
  error :: "string option"

text \<open>
  \<open>fetchServerTools\<close>: the answer for one server and what the unit did on the way.
  The inner \<open>finally\<close> closes the connection whether \<open>listTools\<close> resolved or not; the
  outer \<open>catch\<close> turns every exception into an answer with an \<open>error\<close>.
\<close>

definition fetchServerTools ::
  "network \<Rightarrow> McpServersConfig \<Rightarrow> string \<Rightarrow> ServerWithTools \<times> action list"
where
  "fetchServerTools net config serverName' =
     (case getServerConfig config serverName' of
        Inl error' \<Rightarrow>
          (\<lparr>name = serverName', tools = [], error = Some (message error')\<rparr>, [])
      | Inr serverConfig \<Rightarrow>
          (case connectToServer net serverName' serverConfig of
             Inl error' \<Rightarrow>
               (\<lparr>name = serverName', tools = [], error = Some (message error')\<rparr>,
                [Connect serverName'])
           | Inr client \<Rightarrow>
               (case listTools net serverName' of
                  Inl error' \<Rightarrow>
                    (\<lparr>name = serverName', tools = [], error = Some (message error')\<rparr>,
                     [Connect serverName', ListTools serverName', Close serverName'])
                | Inr tools' \<Rightarrow>
                    (\<lparr>name = serverName', tools = tools', error = None\<rparr>,
                     [Connect serverName', ListTools serverName', Close serverName']))))"

text \<open>The answer of the unit of work for one server.\<close>

definition listUnit :: "network \<Rightarrow> McpServersConfig \<Rightarrow> string \<Rightarrow> ServerWithTools" where
  "listUnit net config serverName' = fst (fetchServerTools net config serverName')"

text \<open>
  The array \<open>servers\<close> of \<open>listCommand\<close> after \<open>servers.sort(...)\<close>, for a configuration
  that names a server. \<open>localeCompare\<close> is \<open>String.prototype.localeCompare\<close> of the
  runtime; \<open>order\<close> is the order in which the pool's promises settle. A slot of the
  pool's array that was never assigned would make the comparator throw a
  \<open>TypeError\<close>.
\<close>

definition undefinedHasNoName :: js_error where
  "undefinedHasNoName =
     \<lparr>code = None, message = ''undefined is not an object (evaluating 'a.name')''\<rparr>"

definition listCommand_servers ::
  "(string \<Rightarrow> string \<Rightarrow> int) \<Rightarrow> (nat \<Rightarrow> nat) \<Rightarrow> network \<Rightarrow> process_env \<Rightarrow> McpServersConfig
     \<Rightarrow> js_error + ServerWithTools list"
where
  "listCommand_servers localeCompare order net env config =
     (let serverNames = listServerNames config;
          concurrencyLimit = getConcurrencyLimit env
      in case processWithConcurrency order serverNames
                (\<lambda>name' index. Inr (listUnit net config name'))
                (nat concurrencyLimit) of
           Inl reason \<Rightarrow> Inl reason
         | Inr slots \<Rightarrow>
             (case those slots of
                None \<Rightarrow> Inl undefinedHasNoName
              | Some servers \<Rightarrow>
                  Inr (sortBy (\<lambda>a b. localeCompare (name a) (name b)) servers)))"

text \<open>
  \<open>listCommand\<close>. Three parameters stand for what is written beside the command's own
  lines:
  \<^item> \<open>loaded\<close> is what \<open>loadConfig\<close> wrote to stderr (its warnings) and how it settled;
  \<^item> \<open>unitMessages\<close> are the messages that the units of work, and the client functions
    they call, pass to \<open>debug\<close> while the pool runs, in the order of the calls. The
    units run interleaved, so the order belongs to the run. All of these calls come
    after the command's own call of \<open>debug\<close> and before it writes its result;
  \<^item> \<open>numberToString\<close> is the runtime's conversion of a number to a string, applied to
    the concurrency limit; the number of servers is written in decimal.
\<close>

definition listCommand ::
  "formatters \<Rightarrow> (int \<Rightarrow> string) \<Rightarrow> (string \<Rightarrow> string \<Rightarrow> int) \<Rightarrow> (nat \<Rightarrow> nat) \<Rightarrow> network
     \<Rightarrow> process_env \<Rightarrow> string list \<Rightarrow> ListOptions
     \<Rightarrow> string list \<times> (js_error + McpServersConfig) \<Rightarrow> event list"
where
  "listCommand fmt numberToString localeCompare order net env unitMessages options loaded =
     map Stderr (fst loaded) @
     (case snd loaded of
        Inl error' \<Rightarrow> [Stderr (message error'), Exit CLIENT_ERROR]
      | Inr config \<Rightarrow>
          let serverNames = listServerNames config in
          if serverNames = [] then
            [Stderr ''Warning: No servers configured. Add servers to mcp_servers.json'']
          else
            let concurrencyLimit = getConcurrencyLimit env in
            debug env (''Processing '' @ decimal (length serverNames)
                       @ '' servers with concurrency '' @ numberToString concurrencyLimit)
            @ concat (map (debug env) unitMessages)
            @ (case listCommand_servers localeCompare order net env config of
                 Inl reason \<Rightarrow> [Uncaught reason]
               | Inr servers \<Rightarrow>
                   let displayServers =
                         map (\<lambda>s. (name s,
                                   if truthy (error s)
                                   then [\<lparr>ToolInfo.name = ''<error: '' @ the (error s) @ ''>'',
                                          description = None, inputSchema = []\<rparr>]
                                   else tools s)) servers
                   in if json options
                      then [Stdout (formatJson_servers fmt
                                      (map (\<lambda>s. (name s, tools s, error s)) servers))]
                      else [Stdout (formatServerList fmt displayServers
                                      (withDescriptions options))]))"

subsection \<open>grep\<close>

record GrepOptions =
  pattern :: string
  withDescriptions :: bool
  json :: bool

record ServerSearchResult =
  serverName :: string
  results :: "(string \<times> ToolInfo) list"
  error :: "string option"

text \<open>
  The loop of \<open>searchServerTools\<close> over the tools: a tool is kept when the pattern
  matches its name, its \<open>server/name\<close> path or its non-empty description. A
  \<open>SearchResult\<close> \<open>{server, tool}\<close> is a pair; \<open>test'\<close> is the \<open>test\<close> method of the
  compiled pattern.
\<close>

definition matchingTools ::
  "(string \<Rightarrow> bool) \<Rightarrow> string \<Rightarrow> ToolInfo list \<Rightarrow> (string \<times> ToolInfo) list"
where
  "matchingTools test' serverName' tools' =
     map (\<lambda>tool. (serverName', tool))
       (filter (\<lambda>tool.
            let fullPath = serverName' @ ''/'' @ ToolInfo.name tool;
                matchesName = test' (ToolInfo.name tool);
                matchesPath = test' fullPath;
                matchesDescription =
                  (truthy (description tool) \<and> test' (the (description tool)))
            in matchesName \<or> matchesPath \<or> matchesDescription) tools')"

text \<open>
  \<open>searchServerTools\<close>: the answer for one server, the world it leaves and what the
  unit did. The world \<open>w\<close> is the one the unit finds when it looks the cache up.
\<close>

definition searchServerTools ::
  "json_runtime \<Rightarrow> world \<Rightarrow> network \<Rightarrow> McpServersConfig \<Rightarrow> (string \<Rightarrow> bool) \<Rightarrow> string
     \<Rightarrow> ServerSearchResult \<times> world \<times> action list"
where
  "searchServerTools rt w net config test' serverName' =
     (case getCachedToolList rt w serverName' of
        Inl error' \<Rightarrow>
          (\<lparr>serverName = serverName', results = [], error = Some (message error')\<rparr>, w,
           [CacheLookup serverName'])
      | Inr (Some cachedTools) \<Rightarrow>
          (\<lparr>serverName = serverName', results = matchingTools test' serverName' cachedTools,
            error = None\<rparr>, w,
           [CacheLookup serverName'])
      | Inr None \<Rightarrow>
          (case getServerConfig config serverName' of
             Inl error' \<Rightarrow>
               (\<lparr>serverName = serverName', results = [], error = Some (message error')\<rparr>, w,
                [CacheLookup serverName'])
           | Inr serverConfig \<Rightarrow>
               (case connectToServer net serverName' serverConfig of
                  Inl error' \<Rightarrow>
                    (\<lparr>serverName = serverName', results = [], error = Some (message error')\<rparr>,
                     w, [CacheLookup serverName', Connect serverName'])
                | Inr client \<Rightarrow>
                    (case listTools net serverName' of
                       Inl error' \<Rightarrow>
                         (\<lparr>serverName = serverName', results = [],
                           error = Some (message error')\<rparr>, w,
                          [CacheLookup serverName', Connect serverName', ListTools serverName',
                           Close serverName'])
                     | Inr tools' \<Rightarrow>
                         (case setCachedToolList rt w serverName' tools' of
                            Inl error' \<Rightarrow>
                              (\<lparr>serverName = serverName', results = [],
                                error = Some (message error')\<rparr>, w,
                               [CacheLookup serverName', Connect serverName',
                                ListTools serverName', CacheStore serverName',
                                Close serverName'])
                          | Inr stored \<Rightarrow>
                              (\<lparr>serverName = serverName',
                                results = matchingTools test' serverName' tools',
                                error = None\<rparr>, stored,
                               [CacheLookup serverName', Connect serverName',
                                ListTools serverName', CacheStore serverName',
                                Close serverName']))))))"

text \<open>The answer of the unit of work for one server.\<close>

definition grepUnit ::
  "json_runtime \<Rightarrow> (string \<Rightarrow> world) \<Rightarrow> network \<Rightarrow> McpServersConfig \<Rightarrow> (string \<Rightarrow> bool) \<Rightarrow> string
     \<Rightarrow> ServerSearchResult"
where
  "grepUnit rt view net config test' serverName' =
     fst (searchServerTools rt (view serverName') net config test' serverName')"

text \<open>The line \<open>grepCommand\<close> writes to stderr when servers failed.\<close>

definition failedServersWarning :: "string list \<Rightarrow> string" where
  "failedServersWarning failedServers =
     ''Warning: '' @ decimal (length failedServers) @ '' server(s) failed to connect: ''
       @ joinWith '', '' failedServers"

text \<open>
  \<open>grepCommand\<close>. \<open>view serverName\<close> is the world the unit for that server finds when
  it looks the cache up: the units share the cache directory and run interleaved, so
  what one finds depends on the order of the run. A slot never assigned would make
  \<open>result.results\<close> throw a \<open>TypeError\<close>. \<open>loaded\<close>, \<open>unitMessages\<close> and
  \<open>numberToString\<close> are as in \<open>listCommand\<close>; here the units also call the cache
  functions, whose messages are among \<open>unitMessages\<close>.
\<close>

definition undefinedHasNoResults :: js_error where
  "undefinedHasNoResults =
     \<lparr>code = None, message = ''undefined is not an object (evaluating 'result.results')''\<rparr>"

definition grepCommand ::
  "formatters \<Rightarrow> (int \<Rightarrow> string) \<Rightarrow> (string \<Rightarrow> string \<Rightarrow> bool) \<Rightarrow> json_runtime
     \<Rightarrow> (string \<Rightarrow> world) \<Rightarrow> (nat \<Rightarrow> nat) \<Rightarrow> network \<Rightarrow> process_env \<Rightarrow> string list
     \<Rightarrow> GrepOptions \<Rightarrow> string list \<times> (js_error + McpServersConfig) \<Rightarrow> event list"
where
  "grepCommand fmt numberToString globToRegex rt view order net env unitMessages options loaded =
     map Stderr (fst loaded) @
     (case snd loaded of
        Inl error' \<Rightarrow> [Stderr (message error'), Exit CLIENT_ERROR]
      | Inr config \<Rightarrow>
          let pattern' = globToRegex (pattern options);
              serverNames = listServerNames config
          in if serverNames = [] then
               [Stderr ''Warning: No servers configured. Add servers to mcp_servers.json'']
             else
               let concurrencyLimit = getConcurrencyLimit env in
               debug env (''Searching '' @ decimal (length serverNames)
                          @ '' servers for pattern '' @ [CHR 0x22] @ pattern options
                          @ [CHR 0x22] @ '' (concurrency: '' @ numberToString concurrencyLimit
                          @ '')'')
               @ concat (map (debug env) unitMessages)
               @ (case processWithConcurrency order serverNames
                         (\<lambda>serverName' index.
                            Inr (grepUnit rt view net config pattern' serverName'))
                         (nat concurrencyLimit) of
                    Inl reason \<Rightarrow> [Uncaught reason]
                  | Inr slots \<Rightarrow>
                      (case those slots of
                         None \<Rightarrow> [Uncaught undefinedHasNoResults]
                       | Some serverResults \<Rightarrow>
                           let allResults = concat (map results serverResults);
                               failedServers =
                                 map serverName
                                   (filter (\<lambda>result. truthy (error result)) serverResults)
                           in (if failedServers \<noteq> []
                               then [Stderr (failedServersWarning failedServers)] else [])
                              @ (if allResults = [] then
                                   [Stdout (''No tools found matching '' @ [CHR 0x22]
                                            @ pattern options @ [CHR 0x22])]
                                 else if json options then
                                   [Stdout (formatJson_results fmt allResults)]
                                 else
                                   [Stdout (formatSearchResults fmt allResults
                                              (withDescriptions options))]))))"

subsection \<open>A configuration with one server that cannot be reached\<close>

definition githubOnly :: McpServersConfig where
  "githubOnly = \<lparr>mcpServers = [(''github'', StdioServerConfig ''npx'')]\<rparr>"

definition unreachable :: network where
  "unreachable =
     \<lparr>connectToServer = (\<lambda>serverName' config. Inl refusedConnection),
      listTools = (\<lambda>serverName'. Inl refusedConnection)\<rparr>"

text \<open>Servers that all answer with the one tool \<open>search\<close>.\<close>

definition reachable :: network where
  "reachable =
     \<lparr>connectToServer = (\<lambda>serverName' config. Inr ()),
      listTools = (\<lambda>serverName'. Inr githubTools)\<rparr>"

text \<open>
  \<open>formatServerList\<close> and \<open>formatSearchResults\<close> as output.ts writes them when colours
  are off, with an asterisk for the bullet (the bullet is not a code unit below 256).
  The two JSON printers are not used by the examples and print a placeholder.
\<close>

definition trimEnd :: "string \<Rightarrow> string" where
  "trimEnd s = rev (dropWhile isWhiteSpace (rev s))"

definition plainFormatters :: formatters where
  "plainFormatters =
     \<lparr>formatServerList =
        (\<lambda>servers withDescriptions'.
           trimEnd (joinWith [CHR 0x0A]
             (concat (map (\<lambda>(name', tools').
                  [name']
                  @ map (\<lambda>tool.
                      if withDescriptions' \<and> truthy (description tool)
                      then ''  * '' @ ToolInfo.name tool @ '' - '' @ the (description tool)
                      else ''  * '' @ ToolInfo.name tool) tools'
                  @ [[]]) servers)))),
      formatJson_servers = (\<lambda>servers. ''[...]''),
      formatSearchResults =
        (\<lambda>results' withDescriptions'.
           joinWith [CHR 0x0A]
             (map (\<lambda>(server, tool).
                  if withDescriptions' \<and> truthy (description tool)
                  then server @ ''/'' @ ToolInfo.name tool @ '' - '' @ the (description tool)
                  else server @ ''/'' @ ToolInfo.name tool) results')),
      formatJson_results = (\<lambda>results'. ''[...]'')\<rparr>"

text \<open>
  \<open>String.prototype.localeCompare\<close> in the runtime's default locale, on names made of
  ASCII letters: the letters are compared alphabetically without regard to case, and
  of two names that differ in case only, the one with the lower-case letter at the
  first difference comes first. This is the part of the runtime's collation the
  examples need; it is not code of the program.
\<close>

definition isUpperCase :: "char \<Rightarrow> bool" where
  "isUpperCase c = List.member ''ABCDEFGHIJKLMNOPQRSTUVWXYZ'' c"

definition localeCompare_letters :: "string \<Rightarrow> string \<Rightarrow> int" where
  "localeCompare_letters a b =
     (if toLowerCase a < toLowerCase b then - 1
      else if toLowerCase b < toLowerCase a then 1
      else if map isUpperCase a < map isUpperCase b then - 1
      else if map isUpperCase b < map isUpperCase a then 1
      else 0)"

definition twoServers :: McpServersConfig where
  "twoServers =
     \<lparr>mcpServers = [(''Beta'', StdioServerConfig ''npx''), (''alpha'', HttpServerConfig ''https://alpha.example/mcp'')]\<rparr>"

text \<open>Of the two servers only \<open>alpha\<close> accepts a connection.\<close>

definition onlyAlphaAnswers :: network where
  "onlyAlphaAnswers =
     \<lparr>connectToServer =
        (\<lambda>serverName' config. if serverName' = ''alpha'' then Inr () else Inl refusedConnection),
      listTools = (\<lambda>serverName'. Inr githubTools)\<rparr>"

section \<open>Properties of the classifier\<close>

text \<open>
  Claim C7. For errors that carry no fault code, \<open>isTransientError\<close> is true for the
  messages "503 Service Unavailable", "connection refused" and "request timeout", and
  false for "Invalid JSON", "Error at line 502 in file" and "social network tool failed".
\<close>

theorem isTransientError_documented_messages:
  "isTransientError \<lparr>code = None, message = ''503 Service Unavailable''\<rparr> \<and>
   isTransientError \<lparr>code = None, message = ''connection refused''\<rparr> \<and>
   isTransientError \<lparr>code = None, message = ''request timeout''\<rparr> \<and>
   \<not> isTransientError \<lparr>code = None, message = ''Invalid JSON''\<rparr> \<and>
   \<not> isTransientError \<lparr>code = None, message = ''Error at line 502 in file''\<rparr> \<and>
   \<not> isTransientError \<lparr>code = None, message = ''social network tool failed''\<rparr>"
  by code_simp


text \<open>
  Claim C8 says that the message matching is aware of word boundaries: a message in
  which \<open>network\<close> occurs only inside a longer word, and which has no other transient
  indicator, is not transient. The project's test of the classifier says the same
  ("avoids false positives with word boundaries", "network is just part of a word").
  The pattern \<open>/network\s*(error|fail|unavailable|timeout)/i\<close> has no \<open>\b\<close> in front,
  unlike the patterns beside it: "internetwork error" matches it and none of the other
  five patterns, so the classifier takes the error for transient. With a \<open>\b\<close> in front
  the pattern would not match.
\<close>

theorem isTransientError_network_inside_word:
  "isTransientError \<lparr>code = None, message = ''internetwork error''\<rparr> \<and>
   test True networkPhrase ''internetwork error'' \<and>
   \<not> test False leadingStatus ''internetwork error'' \<and>
   \<not> test True httpContextStatus ''internetwork error'' \<and>
   \<not> test True statusWithPhrase ''internetwork error'' \<and>
   \<not> test True connectionPhrase ''internetwork error'' \<and>
   \<not> test True timeoutWord ''internetwork error'' \<and>
   \<not> test True (Seq WordB networkPhrase) ''internetwork error''"
  by code_simp

section \<open>Properties of the retry engine\<close>

text \<open>The configuration read from the environment: a positive budget, no negative
  retry count.\<close>

lemma getTimeoutMs_pos: "0 < getTimeoutMs env"
  by (simp add: getTimeoutMs_def DEFAULT_TIMEOUT_MS_def DEFAULT_TIMEOUT_SECONDS_def
      split: option.splits)

lemma getMaxRetries_nonneg: "0 \<le> getMaxRetries env"
  by (simp add: getMaxRetries_def DEFAULT_MAX_RETRIES_def split: option.splits)

lemma getRetryConfig_well_formed:
  "0 < totalBudgetMs (getRetryConfig env) \<and> 0 \<le> maxRetries (getRetryConfig env)"
  using getTimeoutMs_pos [of env] getMaxRetries_nonneg [of env]
  by (simp add: getRetryConfig_def Let_def)

text \<open>Every pass through the loop invokes \<open>fn\<close> at most once, and there are at most
  \<open>maxRetries + 1 - attempt\<close> passes left.\<close>

lemma withRetry_loop_invocations:
  "invocations (withRetry_loop config world attempt lastError elapsed calls slept)
     \<le> calls + nat (maxRetries config + 1 - int attempt)"
proof (induction config world attempt lastError elapsed calls slept rule: withRetry_loop.induct)
  case (1 config world attempt lastError elapsed calls slept)
  show ?case
  proof (cases "int attempt \<le> maxRetries config \<and> \<not> totalBudgetMs config \<le> elapsed")
    case False
    then show ?thesis
      by (subst withRetry_loop.simps) auto
  next
    case True
    show ?thesis
    proof (cases "fn_settles world attempt")
      case (Inr result)
      with True show ?thesis
        by (subst withRetry_loop.simps) auto
    next
      case (Inl error)
      define afterCall where "afterCall = elapsed + fn_takes world attempt"
      define remainingBudget where "remainingBudget = totalBudgetMs config - afterCall"
      define shouldRetry where "shouldRetry \<longleftrightarrow>
        int attempt < maxRetries config \<and> isTransientError error \<and> 1000 < remainingBudget"
      show ?thesis
      proof (cases shouldRetry)
        case False
        with True Inl show ?thesis
          by (subst withRetry_loop.simps)
             (auto simp: shouldRetry_def remainingBudget_def afterCall_def Let_def)
      next
        case sr: True
        have step: "withRetry_loop config world attempt lastError elapsed calls slept =
          withRetry_loop config world (Suc attempt) (Some error)
            (afterCall + sleep_takes world attempt
               (min (calculateDelay attempt config (math_random world attempt)) (remainingBudget - 1000)))
            (Suc calls)
            (slept @ [min (calculateDelay attempt config (math_random world attempt)) (remainingBudget - 1000)])"
          using True Inl sr
          by (subst withRetry_loop.simps)
             (simp add: shouldRetry_def remainingBudget_def afterCall_def Let_def)
        have "invocations (withRetry_loop config world (Suc attempt) (Some error)
            (afterCall + sleep_takes world attempt
               (min (calculateDelay attempt config (math_random world attempt)) (remainingBudget - 1000)))
            (Suc calls)
            (slept @ [min (calculateDelay attempt config (math_random world attempt)) (remainingBudget - 1000)]))
          \<le> Suc calls + nat (maxRetries config + 1 - int (Suc attempt))"
          using "1.IH" [OF _ _ Inl, of afterCall remainingBudget shouldRetry] True sr
          by (simp add: shouldRetry_def remainingBudget_def afterCall_def)
        moreover have "Suc calls + nat (maxRetries config + 1 - int (Suc attempt))
           = calls + nat (maxRetries config + 1 - int attempt)"
          using sr unfolding shouldRetry_def by arith
        ultimately show ?thesis
          using step by simp
      qed
    qed
  qed
qed

text \<open>
  Claim C3. With \<open>maxRetries = R \<ge> 0\<close>, \<open>withRetry\<close> invokes the operation at most
  \<open>R + 1\<close> times. With \<open>maxRetries = 0\<close> it invokes it exactly once, never sleeps, and a
  failure of that invocation is the error raised. The budget of the configuration is
  positive, as it is for every configuration \<open>getRetryConfig\<close> builds
  (\<open>getRetryConfig_well_formed\<close>): the loop tests the budget before the first attempt.
\<close>

theorem withRetry_invocation_bound:
  assumes "0 \<le> maxRetries config"
  shows "int (invocations (withRetry config world)) \<le> maxRetries config + 1 \<and>
    (maxRetries config = 0 \<and> 0 < totalBudgetMs config \<longrightarrow>
       invocations (withRetry config world) = 1 \<and>
       sleeps (withRetry config world) = [] \<and>
       (\<forall>error. fn_settles world 0 = Inl error \<longrightarrow>
          settled (withRetry config world) = Inl (Some error)))"
proof -
  have "invocations (withRetry config world) \<le> 0 + nat (maxRetries config + 1 - int 0)"
    unfolding withRetry_def by (rule withRetry_loop_invocations)
  then have bound: "int (invocations (withRetry config world)) \<le> maxRetries config + 1"
    using assms by simp
  have once: "invocations (withRetry config world) = 1 \<and>
       sleeps (withRetry config world) = [] \<and>
       (\<forall>error. fn_settles world 0 = Inl error \<longrightarrow>
          settled (withRetry config world) = Inl (Some error))"
    if "maxRetries config = 0" and "0 < totalBudgetMs config"
    using that unfolding withRetry_def
    by (subst (1 2 3) withRetry_loop.simps) (auto simp: Let_def split: sum.splits)
  from bound once show ?thesis by blast
qed

text \<open>
  Claim C4. If every invocation of the operation raises an error that
  \<open>isTransientError\<close> rejects, \<open>withRetry\<close> raises the first of these errors after exactly
  one invocation and without sleeping, for every \<open>maxRetries \<ge> 0\<close> and every positive
  budget.
\<close>

theorem withRetry_non_transient_single_invocation:
  assumes budget: "0 < totalBudgetMs config"
    and retries: "0 \<le> maxRetries config"
    and always_fatal: "\<forall>k. \<exists>error. fn_settles world k = Inl error \<and> \<not> isTransientError error"
  shows "invocations (withRetry config world) = 1 \<and>
    sleeps (withRetry config world) = [] \<and>
    (\<exists>error. fn_settles world 0 = Inl error \<and>
       settled (withRetry config world) = Inl (Some error))"
proof -
  from always_fatal obtain error where
    first: "fn_settles world 0 = Inl error" and fatal: "\<not> isTransientError error"
    by blast
  have "withRetry config world =
      \<lparr>settled = Inl (Some error), invocations = 1, sleeps = []\<rparr>"
    unfolding withRetry_def using budget retries first fatal
    by (subst withRetry_loop.simps) (simp add: Let_def)
  with first show ?thesis by simp
qed

theorem withRetry_invocation_bound_witness:
  "0 \<le> maxRetries (getRetryConfig [''MCP_MAX_RETRIES'' \<mapsto> ''0'']) \<and>
   int (invocations (withRetry (getRetryConfig [''MCP_MAX_RETRIES'' \<mapsto> ''0'']) alwaysRefused))
     \<le> maxRetries (getRetryConfig [''MCP_MAX_RETRIES'' \<mapsto> ''0'']) + 1 \<and>
   maxRetries (getRetryConfig [''MCP_MAX_RETRIES'' \<mapsto> ''0'']) = 0 \<and>
   0 < totalBudgetMs (getRetryConfig [''MCP_MAX_RETRIES'' \<mapsto> ''0'']) \<and>
   invocations (withRetry (getRetryConfig [''MCP_MAX_RETRIES'' \<mapsto> ''0'']) alwaysRefused) = 1 \<and>
   sleeps (withRetry (getRetryConfig [''MCP_MAX_RETRIES'' \<mapsto> ''0'']) alwaysRefused) = [] \<and>
   fn_settles alwaysRefused 0 = Inl refusedConnection \<and>
   settled (withRetry (getRetryConfig [''MCP_MAX_RETRIES'' \<mapsto> ''0'']) alwaysRefused)
     = Inl (Some refusedConnection)"
proof -
  have cfg: "getRetryConfig [''MCP_MAX_RETRIES'' \<mapsto> ''0'']
      = \<lparr>maxRetries = 0, baseDelayMs = 1000, maxDelayMs = 10000, totalBudgetMs = 1800000\<rparr>"
    by code_simp
  have first: "fn_settles alwaysRefused 0 = Inl refusedConnection"
    by (simp add: alwaysRefused_def)
  show ?thesis
    using withRetry_invocation_bound
      [of "getRetryConfig [''MCP_MAX_RETRIES'' \<mapsto> ''0'']" alwaysRefused] first
    by (simp add: cfg)
qed

theorem withRetry_non_transient_single_invocation_witness:
  "0 < totalBudgetMs (getRetryConfig Map.empty) \<and>
   0 \<le> maxRetries (getRetryConfig Map.empty) \<and>
   maxRetries (getRetryConfig Map.empty) = 3 \<and>
   fn_settles alwaysInvalid 0 = Inl invalidJson \<and>
   \<not> isTransientError invalidJson \<and>
   invocations (withRetry (getRetryConfig Map.empty) alwaysInvalid) = 1 \<and>
   sleeps (withRetry (getRetryConfig Map.empty) alwaysInvalid) = [] \<and>
   settled (withRetry (getRetryConfig Map.empty) alwaysInvalid) = Inl (Some invalidJson)"
proof -
  have cfg: "getRetryConfig Map.empty
      = \<lparr>maxRetries = 3, baseDelayMs = 1000, maxDelayMs = 10000, totalBudgetMs = 1800000\<rparr>"
    by code_simp
  have fatal: "\<not> isTransientError invalidJson"
    by code_simp
  have every: "\<forall>k. \<exists>error. fn_settles alwaysInvalid k = Inl error \<and> \<not> isTransientError error"
    using fatal by (simp add: alwaysInvalid_def)
  have first: "fn_settles alwaysInvalid 0 = Inl invalidJson"
    by (simp add: alwaysInvalid_def)
  show ?thesis
    using withRetry_non_transient_single_invocation
      [of "getRetryConfig Map.empty" alwaysInvalid, OF _ _ every] first fatal
    by (simp add: cfg)
qed

text \<open>With the default configuration a connection that is refused every time is tried
  four times, after sleeps of one, two and four seconds (no jitter at
  \<open>Math.random() = 0.5\<close>).\<close>

lemma withRetry_default_backoff:
  "withRetry (getRetryConfig Map.empty) alwaysRefused
     = \<lparr>settled = Inl (Some refusedConnection), invocations = 4, sleeps = [1000, 2000, 4000]\<rparr>"
  by code_simp

section \<open>Properties of the worker pool\<close>

text \<open>The state after the workers have been started.\<close>

lemma start_workers_prefix:
  assumes "j \<le> k" and "k \<le> n"
  shows "foldl (\<lambda>p w. worker_advance n w p)
       \<lparr>pool.results = replicate n None, currentIndex = 0,
        workers = replicate k Unstarted, assignments = replicate n 0\<rparr>
       [0..<j]
     = \<lparr>pool.results = replicate n None, currentIndex = j,
        workers = map Awaiting [0..<j] @ replicate (k - j) Unstarted,
        assignments = replicate n 0\<rparr>"
  using assms
proof (induction j)
  case 0
  then show ?case by simp
next
  case (Suc j)
  then have j: "j < k" "j < n" by simp_all
  from j have split: "k - j = Suc (k - Suc j)" by simp
  have "(map Awaiting [0..<j] @ replicate (k - j) Unstarted)[j := Awaiting j]
      = map Awaiting [0..<j] @ Awaiting j # replicate (k - Suc j) Unstarted"
    unfolding split by (simp add: list_update_append)
  with Suc j show ?case
    by (simp add: worker_advance_def)
qed

lemma start_workers_eq:
  "k \<le> n \<Longrightarrow> start_workers n k
     = \<lparr>pool.results = replicate n None, currentIndex = k,
        workers = map Awaiting [0..<k], assignments = replicate n 0\<rparr>"
  unfolding start_workers_def using start_workers_prefix [of k k n] by simp

lemma pool_inv_start:
  assumes "k \<le> n"
  shows "pool_inv n f (start_workers n k)"
proof -
  have "inFlight (start_workers n k) i" if "i < k" for i
    using that assms by (auto simp: inFlight_def start_workers_eq)
  then show ?thesis
    using assms by (auto simp: pool_inv_def start_workers_eq)
qed

lemma pool_inv_step:
  assumes inv: "pool_inv n f p"
    and w: "w < length (workers p)"
    and aw: "workers p ! w = Awaiting index"
  shows "pool_inv n f (worker_advance n w (assign_result index (f index) p))"
proof -
  let ?ws = "workers p"
  from inv have len: "length (pool.results p) = n" "length (assignments p) = n" "currentIndex p \<le> n"
    by (simp_all add: pool_inv_def)
  from inv have started: "\<And>v. v < length ?ws \<Longrightarrow> ?ws ! v \<noteq> Unstarted"
    by (simp add: pool_inv_def)
  from inv have below: "\<And>v i. v < length ?ws \<Longrightarrow> ?ws ! v = Awaiting i \<Longrightarrow> i < currentIndex p"
    by (simp add: pool_inv_def)
  from inv have fin: "\<And>v. v < length ?ws \<Longrightarrow> ?ws ! v = Finished \<Longrightarrow> currentIndex p = n"
    by (simp add: pool_inv_def)
  from inv have uniq: "\<And>v v' i. v < length ?ws \<Longrightarrow> v' < length ?ws \<Longrightarrow>
      ?ws ! v = Awaiting i \<Longrightarrow> ?ws ! v' = Awaiting i \<Longrightarrow> v = v'"
    unfolding pool_inv_def by blast
  from inv have slots: "\<And>i. i < n \<Longrightarrow>
      (if i < currentIndex p \<and> \<not> inFlight p i
       then pool.results p ! i = Some (f i) \<and> assignments p ! i = 1
       else pool.results p ! i = None \<and> assignments p ! i = 0)"
    by (simp add: pool_inv_def)
  have index: "index < currentIndex p" using below [OF w aw] .
  then have index_n: "index < n" using len by simp
  have flying: "inFlight p index" using w aw by (auto simp: inFlight_def)
  with slots [OF index_n] have empty: "pool.results p ! index = None" "assignments p ! index = 0"
    by simp_all
  show ?thesis
  proof (cases "currentIndex p < n")
    case True
    let ?q = "worker_advance n w (assign_result index (f index) p)"
    have q: "?q = \<lparr>pool.results = (pool.results p)[index := Some (f index)],
        currentIndex = Suc (currentIndex p),
        workers = ?ws[w := Awaiting (currentIndex p)],
        assignments = (assignments p)[index := Suc 0]\<rparr>"
      using True empty by (simp add: worker_advance_def assign_result_def)
    have fl: "inFlight ?q i \<longleftrightarrow> (i = currentIndex p \<or> (inFlight p i \<and> i \<noteq> index))" for i
    proof
      assume "inFlight ?q i"
      then obtain v where v: "v < length ?ws" "(?ws[w := Awaiting (currentIndex p)]) ! v = Awaiting i"
        by (auto simp: inFlight_def q)
      show "i = currentIndex p \<or> (inFlight p i \<and> i \<noteq> index)"
      proof (cases "v = w")
        case True
        with v w show ?thesis by simp
      next
        case False
        with v have vi: "?ws ! v = Awaiting i" by simp
        with uniq [OF v(1) w vi] aw False have "i \<noteq> index" by auto
        with vi v(1) show ?thesis by (auto simp: inFlight_def)
      qed
    next
      assume "i = currentIndex p \<or> (inFlight p i \<and> i \<noteq> index)"
      then show "inFlight ?q i"
      proof
        assume "i = currentIndex p"
        with w show ?thesis by (auto simp: inFlight_def q intro!: exI [of _ w])
      next
        assume "inFlight p i \<and> i \<noteq> index"
        then obtain v where v: "v < length ?ws" "?ws ! v = Awaiting i" and ne: "i \<noteq> index"
          by (auto simp: inFlight_def)
        with aw have "v \<noteq> w" by auto
        with v show ?thesis by (auto simp: inFlight_def q intro!: exI [of _ v])
      qed
    qed
    have not_cur: "\<not> inFlight p (currentIndex p)"
      using below by (auto simp: inFlight_def)
    have "\<forall>i<n. if i < currentIndex ?q \<and> \<not> inFlight ?q i
            then pool.results ?q ! i = Some (f i) \<and> assignments ?q ! i = 1
            else pool.results ?q ! i = None \<and> assignments ?q ! i = 0"
    proof (intro allI impI)
      fix i assume i: "i < n"
      show "if i < currentIndex ?q \<and> \<not> inFlight ?q i
            then pool.results ?q ! i = Some (f i) \<and> assignments ?q ! i = 1
            else pool.results ?q ! i = None \<and> assignments ?q ! i = 0"
      proof (cases "i = index")
        case True
        with index index_n len show ?thesis
          unfolding fl by (simp add: q)
      next
        case False
        with slots [OF i] not_cur show ?thesis
          unfolding fl by (auto simp: q)
      qed
    qed
    moreover have "\<forall>v<length (workers ?q). workers ?q ! v \<noteq> Unstarted"
    proof (intro allI impI)
      fix v assume "v < length (workers ?q)"
      then have v: "v < length ?ws" by (simp add: q)
      with started [OF v] show "workers ?q ! v \<noteq> Unstarted"
        by (cases "v = w") (simp_all add: q)
    qed
    moreover have "\<forall>v<length (workers ?q). \<forall>i. workers ?q ! v = Awaiting i \<longrightarrow> i < currentIndex ?q"
      using below w by (auto simp: q nth_list_update less_Suc_eq split: if_splits)
    moreover have "\<forall>v<length (workers ?q). workers ?q ! v = Finished \<longrightarrow> currentIndex ?q = n"
      using fin True w by (auto simp: q nth_list_update split: if_splits)
    moreover have "\<forall>v<length (workers ?q). \<forall>v'<length (workers ?q). \<forall>i.
        workers ?q ! v = Awaiting i \<and> workers ?q ! v' = Awaiting i \<longrightarrow> v = v'"
    proof (intro allI impI)
      fix v v' i
      assume v: "v < length (workers ?q)" and v': "v' < length (workers ?q)"
        and both: "workers ?q ! v = Awaiting i \<and> workers ?q ! v' = Awaiting i"
      show "v = v'"
      proof (cases "v = w \<or> v' = w")
        case False
        with v v' both uniq [of v v' i] show ?thesis by (simp add: q)
      next
        case True
        show ?thesis
        proof (rule ccontr)
          assume ne: "v \<noteq> v'"
          with True v v' both w have "\<exists>u<length ?ws. ?ws ! u = Awaiting (currentIndex p)"
            by (auto simp: q nth_list_update split: if_splits)
          with not_cur show False by (simp add: inFlight_def)
        qed
      qed
    qed
    ultimately show ?thesis
      using len True unfolding pool_inv_def by (simp add: q)
  next
    case False
    with len have full: "currentIndex p = n" by simp
    let ?q = "worker_advance n w (assign_result index (f index) p)"
    have q: "?q = \<lparr>pool.results = (pool.results p)[index := Some (f index)],
        currentIndex = currentIndex p,
        workers = ?ws[w := Finished],
        assignments = (assignments p)[index := Suc 0]\<rparr>"
      using False empty by (simp add: worker_advance_def assign_result_def)
    have fl: "inFlight ?q i \<longleftrightarrow> (inFlight p i \<and> i \<noteq> index)" for i
    proof
      assume "inFlight ?q i"
      then obtain v where v: "v < length ?ws" "(?ws[w := Finished]) ! v = Awaiting i"
        by (auto simp: inFlight_def q)
      then have "v \<noteq> w" using w by auto
      with v have vi: "?ws ! v = Awaiting i" by simp
      with uniq [OF v(1) w vi] aw \<open>v \<noteq> w\<close> have "i \<noteq> index" by auto
      with vi v(1) show "inFlight p i \<and> i \<noteq> index" by (auto simp: inFlight_def)
    next
      assume "inFlight p i \<and> i \<noteq> index"
      then obtain v where v: "v < length ?ws" "?ws ! v = Awaiting i" and ne: "i \<noteq> index"
        by (auto simp: inFlight_def)
      with aw have "v \<noteq> w" by auto
      with v show "inFlight ?q i" by (auto simp: inFlight_def q intro!: exI [of _ v])
    qed
    have "\<forall>i<n. if i < currentIndex ?q \<and> \<not> inFlight ?q i
            then pool.results ?q ! i = Some (f i) \<and> assignments ?q ! i = 1
            else pool.results ?q ! i = None \<and> assignments ?q ! i = 0"
    proof (intro allI impI)
      fix i assume i: "i < n"
      show "if i < currentIndex ?q \<and> \<not> inFlight ?q i
            then pool.results ?q ! i = Some (f i) \<and> assignments ?q ! i = 1
            else pool.results ?q ! i = None \<and> assignments ?q ! i = 0"
      proof (cases "i = index")
        case True
        with index index_n len show ?thesis
          unfolding fl by (simp add: q)
      next
        case False
        with slots [OF i] show ?thesis
          unfolding fl by (auto simp: q)
      qed
    qed
    moreover have "\<forall>v<length (workers ?q). workers ?q ! v \<noteq> Unstarted"
    proof (intro allI impI)
      fix v assume "v < length (workers ?q)"
      then have v: "v < length ?ws" by (simp add: q)
      with started [OF v] show "workers ?q ! v \<noteq> Unstarted"
        by (cases "v = w") (simp_all add: q)
    qed
    moreover have "\<forall>v<length (workers ?q). \<forall>i. workers ?q ! v = Awaiting i \<longrightarrow> i < currentIndex ?q"
      using below w by (auto simp: q nth_list_update split: if_splits)
    moreover have "\<forall>v<length (workers ?q). workers ?q ! v = Finished \<longrightarrow> currentIndex ?q = n"
      using full by (simp add: q)
    moreover have "\<forall>v<length (workers ?q). \<forall>v'<length (workers ?q). \<forall>i.
        workers ?q ! v = Awaiting i \<and> workers ?q ! v' = Awaiting i \<longrightarrow> v = v'"
      using uniq w by (auto simp: q nth_list_update split: if_splits)
    ultimately show ?thesis
      using len unfolding pool_inv_def by (simp add: q)
  qed
qed


text \<open>With a processor that always resolves, \<open>Promise.all\<close> resolves, in a state that
  satisfies the invariant and in which no worker awaits.\<close>

lemma drain_resolves:
  assumes "\<And>item index. processor item index = Inr (worker item index)"
    and "pool_inv (length items) (\<lambda>i. worker (items ! i) i) p"
  shows "\<exists>final. drain order items processor step p = Inr final \<and>
     pool_inv (length items) (\<lambda>i. worker (items ! i) i) final \<and>
     pending final = [] \<and> length (workers final) = length (workers p)"
  using assms
proof (induction order items processor step p rule: drain.induct)
  case (1 order items processor step p)
  note resolves = "1.prems"(1) and inv_p = "1.prems"(2)
  show ?case
  proof (cases "pending p = []")
    case True
    with inv_p show ?thesis
      by (subst drain.simps) simp
  next
    case False
    define w where "w = pending p ! (order step mod length (pending p))"
    from False have "w \<in> set (pending p)"
      by (simp add: w_def)
    then have w: "w < length (workers p)" and aw: "isAwaiting (workers p ! w)"
      by (simp_all add: pending_member)
    from aw obtain index where index: "workers p ! w = Awaiting index"
      by (auto simp: isAwaiting_def split: worker.splits)
    let ?v = "worker (items ! index) index"
    let ?q = "worker_advance (length items) w (assign_result index ?v p)"
    have call: "processor (items ! index) index = Inr ?v"
      by (rule resolves)
    have inv: "pool_inv (length items) (\<lambda>i. worker (items ! i) i) ?q"
      using pool_inv_step [OF inv_p w index] .
    have same: "length (workers ?q) = length (workers p)"
      by (simp add: worker_advance_def assign_result_def)
    have unfold: "drain order items processor step p
        = drain order items processor (Suc step) ?q"
      using False index call by (subst drain.simps) (simp add: w_def Let_def)
    from "1.IH" [OF False w_def index call resolves inv] same unfold
    show ?thesis by simp
  qed
qed

lemma drained_results:
  assumes inv: "pool_inv n f p" and idle: "pending p = []"
    and some: "workers p \<noteq> [] \<or> n = 0"
  shows "pool.results p = map (\<lambda>i. Some (f i)) [0..<n] \<and> assignments p = replicate n 1"
proof -
  have none: "\<not> inFlight p i" for i
  proof
    assume "inFlight p i"
    then obtain w where "w < length (workers p)" "workers p ! w = Awaiting i"
      by (auto simp: inFlight_def)
    then have "w \<in> set (pending p)"
      by (simp add: pending_member isAwaiting_def)
    with idle show False by simp
  qed
  have full: "currentIndex p = n"
  proof (cases "n = 0")
    case True
    with inv show ?thesis by (simp add: pool_inv_def)
  next
    case False
    with some have first: "0 < length (workers p)" by simp
    from inv first have "workers p ! 0 \<noteq> Unstarted"
      by (simp add: pool_inv_def)
    moreover have "\<not> isAwaiting (workers p ! 0)"
      using idle first pending_member [of 0 p] by simp
    ultimately have "workers p ! 0 = Finished"
      by (cases "workers p ! 0") (simp_all add: isAwaiting_def)
    with inv first show ?thesis
      unfolding pool_inv_def by blast
  qed
  from inv have slots: "\<And>i. i < n \<Longrightarrow> pool.results p ! i = Some (f i) \<and> assignments p ! i = 1"
    using none full unfolding pool_inv_def by (metis (mono_tags, lifting))
  from inv have len: "length (pool.results p) = n" "length (assignments p) = n"
    by (simp_all add: pool_inv_def)
  have "pool.results p = map (\<lambda>i. Some (f i)) [0..<n]"
    using len slots by (intro nth_equalityI) simp_all
  moreover have "assignments p = replicate n 1"
    using len slots by (intro nth_equalityI) simp_all
  ultimately show ?thesis ..
qed

lemma map_enumerate_indices:
  "map (\<lambda>(index, item). g item index) (enumerate 0 items)
     = map (\<lambda>i. g (items ! i) i) [0..<length items]"
  by (intro nth_equalityI) (simp_all add: nth_enumerate_eq)

text \<open>The run of the pool with a processor that always resolves.\<close>

lemma runPool_resolving:
  fixes items :: "'t list" and worker :: "'t \<Rightarrow> nat \<Rightarrow> 'r"
  assumes limit: "1 \<le> maxConcurrency"
  shows "\<exists>final.
        runPool order items (\<lambda>item index. Inr (worker item index) :: 'e + 'r) maxConcurrency
          = Inr final \<and>
        pool.results final = map (\<lambda>(index, item). Some (worker item index)) (enumerate 0 items) \<and>
        assignments final = replicate (length items) 1"
proof -
  let ?n = "length items"
  let ?k = "min maxConcurrency ?n"
  let ?f = "\<lambda>i. worker (items ! i) i"
  have start: "pool_inv ?n ?f (start_workers ?n ?k)"
    by (rule pool_inv_start) simp
  have "\<exists>final. drain order items (\<lambda>item index. Inr (worker item index) :: 'e + 'r) 0
        (start_workers ?n ?k) = Inr final \<and>
     pool_inv ?n ?f final \<and> pending final = [] \<and> length (workers final) = ?k"
    using drain_resolves [where worker = worker and processor = "\<lambda>item index. Inr (worker item index)",
        OF refl start, of order 0]
    by (simp add: start_workers_eq)
  then obtain final where run:
      "runPool order items (\<lambda>item index. Inr (worker item index) :: 'e + 'r) maxConcurrency
         = Inr final"
    and inv: "pool_inv ?n ?f final" and idle: "pending final = []"
    and len: "length (workers final) = ?k"
    unfolding runPool_def by blast
  from limit have "0 < ?k \<or> ?n = 0"
    by (cases items) simp_all
  with len have "0 < length (workers final) \<or> ?n = 0"
    by simp
  then have "workers final \<noteq> [] \<or> ?n = 0"
    by auto
  from drained_results [OF inv idle this]
  have "pool.results final = map (\<lambda>(index, item). Some (worker item index)) (enumerate 0 items)"
    and "assignments final = replicate ?n 1"
    by (simp_all add: map_enumerate_indices)
  with run show ?thesis by blast
qed

lemma processWithConcurrency_resolving:
  fixes items :: "'t list" and worker :: "'t \<Rightarrow> nat \<Rightarrow> 'r"
  assumes "1 \<le> maxConcurrency"
  shows "processWithConcurrency order items (\<lambda>item index. Inr (worker item index) :: 'e + 'r)
         maxConcurrency
       = Inr (map (\<lambda>(index, item). Some (worker item index)) (enumerate 0 items))"
proof -
  from runPool_resolving [where ?'e = 'e, OF assms, of order items worker]
  obtain final where
    "runPool order items (\<lambda>item index. Inr (worker item index) :: 'e + 'r) maxConcurrency = Inr final"
    "pool.results final = map (\<lambda>(index, item). Some (worker item index)) (enumerate 0 items)"
    by blast
  then show ?thesis
    by (simp add: processWithConcurrency_def)
qed

text \<open>
  Claim C1. For every list of items (also the empty one), every worker function whose
  promise resolves, every concurrency limit of at least one and every order in which
  the pending promises settle, \<open>processWithConcurrency\<close> resolves with an array as
  long as the input whose slot \<open>index\<close> holds \<open>worker(items[index], index)\<close>; every slot
  has been assigned exactly once; and a limit of at least \<open>items.length\<close> gives the
  run that the limit \<open>items.length\<close> gives, whatever the processor does.
\<close>

theorem processWithConcurrency_order_preserved:
  fixes items :: "'t list" and worker :: "'t \<Rightarrow> nat \<Rightarrow> 'r" and processor :: "'t \<Rightarrow> nat \<Rightarrow> 'e + 'r"
  assumes limit: "1 \<le> maxConcurrency"
  shows "(\<exists>final.
        runPool order items (\<lambda>item index. Inr (worker item index) :: 'e + 'r) maxConcurrency
          = Inr final \<and>
        pool.results final = map (\<lambda>(index, item). Some (worker item index)) (enumerate 0 items) \<and>
        assignments final = replicate (length items) 1) \<and>
     processWithConcurrency order items (\<lambda>item index. Inr (worker item index) :: 'e + 'r)
         maxConcurrency
       = Inr (map (\<lambda>(index, item). Some (worker item index)) (enumerate 0 items)) \<and>
     (length items \<le> maxConcurrency \<longrightarrow>
        runPool order items processor maxConcurrency = runPool order items processor (length items))"
proof -
  have same: "runPool order items processor maxConcurrency
      = runPool order items processor (length items)"
    if "length items \<le> maxConcurrency"
    using that by (simp add: runPool_def min_def)
  from runPool_resolving [where ?'e = 'e, OF limit, of order items worker]
    processWithConcurrency_resolving [where ?'e = 'e, OF limit, of order items worker] same
  show ?thesis by blast
qed

theorem processWithConcurrency_order_preserved_witness:
  "(1::nat) \<le> 2 \<and>
   processWithConcurrency (\<lambda>step. 3 * step + 1) [10, 20, 30, 40, 50 :: nat]
       (\<lambda>item index. Inr (item * 10 + index) :: string + nat) 2
     = Inr [Some 100, Some 201, Some 302, Some 403, Some 504] \<and>
   length [10, 20, 30, 40, 50 :: nat] \<le> 7 \<and>
   runPool (\<lambda>step. 3 * step + 1) [10, 20, 30, 40, 50 :: nat]
       (\<lambda>item index. if index = 3 then Inl ''refused'' else Inr (item + index)) 7
     = runPool (\<lambda>step. 3 * step + 1) [10, 20, 30, 40, 50 :: nat]
       (\<lambda>item index. if index = 3 then Inl ''refused'' else Inr (item + index))
       (length [10, 20, 30, 40, 50 :: nat])"
proof -
  have two: "(1::nat) \<le> 2" and seven: "(1::nat) \<le> 7"
    and fits: "length [10, 20, 30, 40, 50 :: nat] \<le> 7"
    by simp_all
  have ordered: "processWithConcurrency (\<lambda>step. 3 * step + 1) [10, 20, 30, 40, 50 :: nat]
       (\<lambda>item index. Inr (item * 10 + index) :: string + nat) 2
     = Inr [Some 100, Some 201, Some 302, Some 403, Some 504]"
    using processWithConcurrency_order_preserved
      [where ?'e = string, OF two, of "\<lambda>step. 3 * step + 1" "[10, 20, 30, 40, 50 :: nat]"
        "\<lambda>item index. item * 10 + index"]
    by simp
  have same: "runPool (\<lambda>step. 3 * step + 1) [10, 20, 30, 40, 50 :: nat]
       (\<lambda>item index. if index = 3 then Inl ''refused'' else Inr (item + index)) 7
     = runPool (\<lambda>step. 3 * step + 1) [10, 20, 30, 40, 50 :: nat]
       (\<lambda>item index. if index = 3 then Inl ''refused'' else Inr (item + index))
       (length [10, 20, 30, 40, 50 :: nat])"
    using processWithConcurrency_order_preserved
      [where ?'e = string, OF seven, of "\<lambda>step. 3 * step + 1" "[10, 20, 30, 40, 50 :: nat]"
        "\<lambda>item index. item * 10 + index"
        "\<lambda>item index. if index = 3 then Inl ''refused'' else Inr (item + index)"]
      fits
    by blast
  from ordered same fits show ?thesis by simp
qed

text \<open>A processor that rejects makes \<open>processWithConcurrency\<close> reject with that reason;
  the other workers' results are not returned.\<close>

lemma processWithConcurrency_rejection_example:
  "processWithConcurrency (\<lambda>step. 3 * step + 1) [10, 20, 30, 40, 50 :: nat]
       (\<lambda>item index. if index = 3 then Inl ''refused'' else Inr (item + index)) 2
     = Inl ''refused''"
  by code_simp

section \<open>Properties of the cache\<close>

lemma getCacheTTLMs_pos: "0 < getCacheTTLMs env"
  by (simp add: getCacheTTLMs_def DEFAULT_CACHE_TTL_SECONDS_def split: option.splits)

lemma getCacheFilePath_frame [simp]:
  "getCacheFilePath (w\<lparr>files := f\<rparr>) n = getCacheFilePath w n"
  "getCacheFilePath (w\<lparr>directories := d\<rparr>) n = getCacheFilePath w n"
  "getCacheFilePath (w\<lparr>now := t\<rparr>) n = getCacheFilePath w n"
  by (simp_all add: getCacheFilePath_def getCacheDir_def)

text \<open>
  Claim C5. \<open>getCachedToolList\<close> never raises. It returns \<open>null\<close> when caching is
  disabled, when no entry exists, when the entry cannot be read or parsed, when its
  format version is not the current one, and when its age exceeds the TTL. It returns a
  tool list exactly when caching is enabled and the entry is readable, parses, has the
  current version and an age within the TTL; the list is then the stored one.
\<close>

theorem getCachedToolList_absent_or_stored:
  "(\<exists>answer. getCachedToolList rt w serverName' = Inr answer) \<and>
   (isCacheDisabled (process_env w) \<longrightarrow> getCachedToolList rt w serverName' = Inr None) \<and>
   (\<not> existsSync w (getCacheFilePath w serverName') \<longrightarrow> getCachedToolList rt w serverName' = Inr None) \<and>
   (\<forall>failure. Bun_file_text w (getCacheFilePath w serverName') = Inl failure \<longrightarrow>
      getCachedToolList rt w serverName' = Inr None) \<and>
   (\<forall>content. Bun_file_text w (getCacheFilePath w serverName') = Inr content \<and>
        JSON_parse rt content = None \<longrightarrow>
      getCachedToolList rt w serverName' = Inr None) \<and>
   (\<forall>content cached. Bun_file_text w (getCacheFilePath w serverName') = Inr content \<and>
        JSON_parse rt content = Some cached \<and> version cached \<noteq> CACHE_VERSION \<longrightarrow>
      getCachedToolList rt w serverName' = Inr None) \<and>
   (\<forall>content cached. Bun_file_text w (getCacheFilePath w serverName') = Inr content \<and>
        JSON_parse rt content = Some cached \<and>
        getCacheTTLMs (process_env w) < now w - timestamp cached \<longrightarrow>
      getCachedToolList rt w serverName' = Inr None) \<and>
   (\<forall>stored. getCachedToolList rt w serverName' = Inr (Some stored) \<longleftrightarrow>
      \<not> isCacheDisabled (process_env w) \<and>
      (\<exists>content cached. Bun_file_text w (getCacheFilePath w serverName') = Inr content \<and>
         JSON_parse rt content = Some cached \<and> version cached = CACHE_VERSION \<and>
         now w - timestamp cached \<le> getCacheTTLMs (process_env w) \<and>
         stored = CachedToolList.tools cached))"
proof -
  let ?path = "getCacheFilePath w serverName'"
  have readable: "existsSync w ?path" if "Bun_file_text w ?path = Inr content" for content
    using that by (auto simp: Bun_file_text_def existsSync_def split: if_splits option.splits)
  have total: "\<exists>answer. getCachedToolList rt w serverName' = Inr answer"
    by (simp add: getCachedToolList_def Let_def split: sum.splits option.splits)
  have disabled: "getCachedToolList rt w serverName' = Inr None" if "isCacheDisabled (process_env w)"
    using that by (simp add: getCachedToolList_def)
  have missing: "getCachedToolList rt w serverName' = Inr None" if "\<not> existsSync w ?path"
    using that by (simp add: getCachedToolList_def Let_def)
  have unreadable: "getCachedToolList rt w serverName' = Inr None"
    if "Bun_file_text w ?path = Inl failure" for failure
    using that by (simp add: getCachedToolList_def Let_def)
  have corrupt: "getCachedToolList rt w serverName' = Inr None"
    if "Bun_file_text w ?path = Inr content" "JSON_parse rt content = None" for content
    using that by (simp add: getCachedToolList_def Let_def)
  have mismatch: "getCachedToolList rt w serverName' = Inr None"
    if "Bun_file_text w ?path = Inr content" "JSON_parse rt content = Some cached"
      "version cached \<noteq> CACHE_VERSION" for content cached
    using that by (simp add: getCachedToolList_def Let_def)
  have expired: "getCachedToolList rt w serverName' = Inr None"
    if "Bun_file_text w ?path = Inr content" "JSON_parse rt content = Some cached"
      "getCacheTTLMs (process_env w) < now w - timestamp cached" for content cached
    using that by (simp add: getCachedToolList_def Let_def)
  have hit: "getCachedToolList rt w serverName' = Inr (Some stored) \<longleftrightarrow>
      \<not> isCacheDisabled (process_env w) \<and>
      (\<exists>content cached. Bun_file_text w ?path = Inr content \<and>
         JSON_parse rt content = Some cached \<and> version cached = CACHE_VERSION \<and>
         now w - timestamp cached \<le> getCacheTTLMs (process_env w) \<and>
         stored = CachedToolList.tools cached)" for stored
  proof
    assume "getCachedToolList rt w serverName' = Inr (Some stored)"
    then show "\<not> isCacheDisabled (process_env w) \<and>
      (\<exists>content cached. Bun_file_text w ?path = Inr content \<and>
         JSON_parse rt content = Some cached \<and> version cached = CACHE_VERSION \<and>
         now w - timestamp cached \<le> getCacheTTLMs (process_env w) \<and>
         stored = CachedToolList.tools cached)"
      by (auto simp: getCachedToolList_def Let_def split: if_splits sum.splits option.splits)
  next
    assume "\<not> isCacheDisabled (process_env w) \<and>
      (\<exists>content cached. Bun_file_text w ?path = Inr content \<and>
         JSON_parse rt content = Some cached \<and> version cached = CACHE_VERSION \<and>
         now w - timestamp cached \<le> getCacheTTLMs (process_env w) \<and>
         stored = CachedToolList.tools cached)"
    then obtain content cached where enabled: "\<not> isCacheDisabled (process_env w)"
      and found: "Bun_file_text w ?path = Inr content"
      and rest: "JSON_parse rt content = Some cached" "version cached = CACHE_VERSION"
        "now w - timestamp cached \<le> getCacheTTLMs (process_env w)" "stored = CachedToolList.tools cached"
      by blast
    with readable [OF found] show "getCachedToolList rt w serverName' = Inr (Some stored)"
      by (simp add: getCachedToolList_def Let_def)
  qed
  from total disabled missing unreadable corrupt mismatch expired hit
  show ?thesis by blast
qed

theorem getCachedToolList_absent_or_stored_witness:
  "isCacheDisabled
     (process_env ((cachedHome githubText)\<lparr>process_env := [''MCP_NO_CACHE'' \<mapsto> ''TRUE'']\<rparr>)) \<and>
   getCachedToolList fragmentOfJSON
     ((cachedHome githubText)\<lparr>process_env := [''MCP_NO_CACHE'' \<mapsto> ''TRUE'']\<rparr>) ''github''
     = Inr None \<and>
   \<not> existsSync freshHome (getCacheFilePath freshHome ''github'') \<and>
   getCachedToolList fragmentOfJSON freshHome ''github'' = Inr None \<and>
   Bun_file_text ((cachedHome githubText)\<lparr>io_fault := (\<lambda>path. True)\<rparr>)
     (getCacheFilePath ((cachedHome githubText)\<lparr>io_fault := (\<lambda>path. True)\<rparr>) ''github'')
     = Inl (ioError ''/home/dev/.cache/mcp-cli/github.json'') \<and>
   getCachedToolList fragmentOfJSON ((cachedHome githubText)\<lparr>io_fault := (\<lambda>path. True)\<rparr>)
     ''github'' = Inr None \<and>
   JSON_parse fragmentOfJSON ''not valid json {]'' = None \<and>
   getCachedToolList fragmentOfJSON (cachedHome ''not valid json {]'') ''github'' = Inr None \<and>
   version foreignEntry \<noteq> CACHE_VERSION \<and>
   getCachedToolList fragmentOfJSON (cachedHome foreignText) ''github'' = Inr None \<and>
   getCacheTTLMs (process_env ((cachedHome githubText)\<lparr>now := 1705539601000\<rparr>))
     < now ((cachedHome githubText)\<lparr>now := 1705539601000\<rparr>) - timestamp githubEntry \<and>
   getCachedToolList fragmentOfJSON ((cachedHome githubText)\<lparr>now := 1705539601000\<rparr>) ''github''
     = Inr None \<and>
   now (cachedHome githubText) - timestamp githubEntry
     \<le> getCacheTTLMs (process_env (cachedHome githubText)) \<and>
   getCachedToolList fragmentOfJSON (cachedHome githubText) ''github'' = Inr (Some githubTools)"
proof -
  let ?path = "''/home/dev/.cache/mcp-cli/github.json''"
  let ?off = "(cachedHome githubText)\<lparr>process_env := [''MCP_NO_CACHE'' \<mapsto> ''TRUE'']\<rparr>"
  let ?faulty = "(cachedHome githubText)\<lparr>io_fault := (\<lambda>path. True)\<rparr>"
  let ?corrupt = "cachedHome ''not valid json {]''"
  let ?other = "cachedHome foreignText"
  let ?late = "(cachedHome githubText)\<lparr>now := 1705539601000\<rparr>"
  have off: "isCacheDisabled (process_env ?off)"
    by code_simp
  have absent: "\<not> existsSync freshHome (getCacheFilePath freshHome ''github'')"
    by code_simp
  have faulty: "Bun_file_text ?faulty (getCacheFilePath ?faulty ''github'') = Inl (ioError ?path)"
    by code_simp
  have corrupt: "Bun_file_text ?corrupt (getCacheFilePath ?corrupt ''github'') = Inr ''not valid json {]''"
    and unparsed: "JSON_parse fragmentOfJSON ''not valid json {]'' = None"
    by code_simp+
  have other: "Bun_file_text ?other (getCacheFilePath ?other ''github'') = Inr foreignText"
    and other_parsed: "JSON_parse fragmentOfJSON foreignText = Some foreignEntry"
    and other_version: "version foreignEntry \<noteq> CACHE_VERSION"
    by code_simp+
  have late: "Bun_file_text ?late (getCacheFilePath ?late ''github'') = Inr githubText"
    and parsed: "JSON_parse fragmentOfJSON githubText = Some githubEntry"
    and too_old: "getCacheTTLMs (process_env ?late) < now ?late - timestamp githubEntry"
    by code_simp+
  have valid: "Bun_file_text (cachedHome githubText)
        (getCacheFilePath (cachedHome githubText) ''github'') = Inr githubText"
    and enabled: "\<not> isCacheDisabled (process_env (cachedHome githubText))"
    and current: "version githubEntry = CACHE_VERSION"
    and young: "now (cachedHome githubText) - timestamp githubEntry
      \<le> getCacheTTLMs (process_env (cachedHome githubText))"
    and stored: "githubTools = CachedToolList.tools githubEntry"
    by code_simp+
  have "getCachedToolList fragmentOfJSON ?off ''github'' = Inr None"
    using getCachedToolList_absent_or_stored [of fragmentOfJSON ?off "''github''"] off
    by blast
  moreover have "getCachedToolList fragmentOfJSON freshHome ''github'' = Inr None"
    using getCachedToolList_absent_or_stored [of fragmentOfJSON freshHome "''github''"] absent
    by blast
  moreover have "getCachedToolList fragmentOfJSON ?faulty ''github'' = Inr None"
    using getCachedToolList_absent_or_stored [of fragmentOfJSON ?faulty "''github''"] faulty
    by blast
  moreover have "getCachedToolList fragmentOfJSON ?corrupt ''github'' = Inr None"
    using getCachedToolList_absent_or_stored [of fragmentOfJSON ?corrupt "''github''"]
      corrupt unparsed
    by blast
  moreover have "getCachedToolList fragmentOfJSON ?other ''github'' = Inr None"
    using getCachedToolList_absent_or_stored [of fragmentOfJSON ?other "''github''"]
      other other_parsed other_version
    by blast
  moreover have "getCachedToolList fragmentOfJSON ?late ''github'' = Inr None"
    using getCachedToolList_absent_or_stored [of fragmentOfJSON ?late "''github''"]
      late parsed too_old
    by blast
  moreover have "getCachedToolList fragmentOfJSON (cachedHome githubText) ''github''
      = Inr (Some githubTools)"
    using getCachedToolList_absent_or_stored [of fragmentOfJSON "cachedHome githubText" "''github''"]
      valid parsed enabled current young stored
    by blast
  ultimately show ?thesis
    using off absent faulty unparsed other_version too_old young by blast
qed





section \<open>Properties of the list and grep commands\<close>

lemma getConcurrencyLimit_pos: "1 \<le> nat (getConcurrencyLimit env)"
proof -
  have "0 < getConcurrencyLimit env"
    by (simp add: getConcurrencyLimit_def DEFAULT_CONCURRENCY_def split: option.splits)
  then show ?thesis by simp
qed

lemma those_map_Some: "those (map (\<lambda>x. Some (g x)) xs) = Some (map g xs)"
  by (induction xs) simp_all

lemma enumerate_map_ignoring_index:
  "map (\<lambda>(index, item). Some (g item)) (enumerate n items) = map (\<lambda>item. Some (g item)) items"
  by (induction items arbitrary: n) simp_all

text \<open>The pool hands each command the answers of its units in the order of the names.\<close>

lemma pool_of_units:
  "processWithConcurrency order names (\<lambda>item index. Inr (g item) :: js_error + 'r)
       (nat (getConcurrencyLimit env))
     = Inr (map (\<lambda>item. Some (g item)) names)"
  using processWithConcurrency_resolving
    [where ?'e = js_error and maxConcurrency = "nat (getConcurrencyLimit env)"
       and order = order and items = names and worker = "\<lambda>item index. g item",
     OF getConcurrencyLimit_pos]
  by (simp add: enumerate_map_ignoring_index)

lemma listCommand_servers_eq:
  "listCommand_servers localeCompare order net env config
     = Inr (sortBy (\<lambda>a b. localeCompare (ServerWithTools.name a) (ServerWithTools.name b))
              (map (listUnit net config) (listServerNames config)))"
  by (simp add: listCommand_servers_def Let_def pool_of_units those_map_Some)

subsection \<open>Sorting with a comparator\<close>

lemma mset_insertBy: "mset (insertBy compare x xs) = add_mset x (mset xs)"
  by (induction xs) simp_all

lemma mset_sortBy: "mset (sortBy compare xs) = mset xs"
  by (induction xs) (simp_all add: sortBy_def mset_insertBy)

lemma set_insertBy: "set (insertBy compare x xs) = insert x (set xs)"
  by (induction xs) auto

lemma sorted_insertBy:
  assumes total: "\<And>a b. compare a b \<le> 0 \<or> compare b a \<le> 0"
    and trans: "\<And>a b c. compare a b \<le> 0 \<Longrightarrow> compare b c \<le> 0 \<Longrightarrow> compare a c \<le> 0"
    and sorted: "sorted_wrt (\<lambda>a b. compare a b \<le> 0) xs"
  shows "sorted_wrt (\<lambda>a b. compare a b \<le> 0) (insertBy compare x xs)"
  using sorted
proof (induction xs)
  case Nil
  then show ?case by simp
next
  case (Cons y ys)
  show ?case
  proof (cases "compare x y \<le> 0")
    case True
    with Cons.prems trans show ?thesis
      by auto
  next
    case False
    with total have "compare y x \<le> 0" by blast
    with False Cons show ?thesis
      by (auto simp: set_insertBy)
  qed
qed

lemma sorted_sortBy:
  assumes "\<And>a b. compare a b \<le> 0 \<or> compare b a \<le> 0"
    and "\<And>a b c. compare a b \<le> 0 \<Longrightarrow> compare b c \<le> 0 \<Longrightarrow> compare a c \<le> 0"
  shows "sorted_wrt (\<lambda>a b. compare a b \<le> 0) (sortBy compare xs)"
proof (induction xs)
  case Nil
  then show ?case by (simp add: sortBy_def)
next
  case (Cons x xs)
  have "sortBy compare (x # xs) = insertBy compare x (sortBy compare xs)"
    by (simp add: sortBy_def)
  with sorted_insertBy [OF assms Cons] show ?case
    by simp
qed

text \<open>The collation used in the examples is a consistent comparator.\<close>

lemma localeCompare_letters_le:
  "localeCompare_letters a b \<le> 0 \<longleftrightarrow>
     toLowerCase a < toLowerCase b \<or>
     (toLowerCase a = toLowerCase b \<and> map isUpperCase a \<le> map isUpperCase b)"
  by (auto simp: localeCompare_letters_def)

lemma localeCompare_letters_total:
  "localeCompare_letters a b \<le> 0 \<or> localeCompare_letters b a \<le> 0"
  unfolding localeCompare_letters_le by auto

lemma localeCompare_letters_trans:
  "localeCompare_letters a b \<le> 0 \<Longrightarrow> localeCompare_letters b c \<le> 0
     \<Longrightarrow> localeCompare_letters a c \<le> 0"
  unfolding localeCompare_letters_le by auto


subsection \<open>The units of work\<close>

lemma fetchServerTools_leaves_cache_alone:
  "CacheLookup s \<notin> set (snd (fetchServerTools net config serverName')) \<and>
   CacheStore s \<notin> set (snd (fetchServerTools net config serverName'))"
  by (simp add: fetchServerTools_def split: sum.splits)

lemma grepUnit_serverName:
  "ServerSearchResult.serverName (grepUnit rt view net config test' serverName') = serverName'"
  by (simp add: grepUnit_def searchServerTools_def split: sum.splits option.splits)

lemma grepUnit_failed_no_results:
  "ServerSearchResult.error (grepUnit rt view net config test' serverName') \<noteq> None
     \<Longrightarrow> results (grepUnit rt view net config test' serverName') = []"
  by (simp add: grepUnit_def searchServerTools_def split: sum.splits option.splits)

lemma concat_map_filter_empty:
  "(\<And>x. x \<in> set xs \<Longrightarrow> \<not> P x \<Longrightarrow> f x = []) \<Longrightarrow>
     concat (map f (filter P xs)) = concat (map f xs)"
  by (induction xs) simp_all

text \<open>
  Claim C2 says that the unit of work of the list command consults the cache first
  and connects only on a miss, as the unit of the grep command does; the project's
  caching notes say the same of \<open>list.ts\<close>. \<open>fetchServerTools\<close> does not: with a valid
  cache entry for \<open>github\<close> and a server that refuses connections it connects, fails
  and reports the error, where \<open>searchServerTools\<close> answers from the cache.
\<close>

theorem fetchServerTools_bypasses_cache:
  "getCachedToolList fragmentOfJSON (cachedHome githubText) ''github'' = Inr (Some githubTools) \<and>
   fetchServerTools unreachable githubOnly ''github''
     = (\<lparr>ServerWithTools.name = ''github'', tools = [],
         error = Some ''connect ECONNREFUSED 127.0.0.1:3000''\<rparr>,
        [Connect ''github'']) \<and>
   fst (searchServerTools fragmentOfJSON (cachedHome githubText) unreachable githubOnly
          (\<lambda>s. True) ''github'')
     = \<lparr>ServerSearchResult.serverName = ''github'',
        results = [(''github'', \<lparr>ToolInfo.name = ''search'', description = None, inputSchema = []\<rparr>)],
        error = None\<rparr> \<and>
   snd (snd (searchServerTools fragmentOfJSON (cachedHome githubText) unreachable githubOnly
          (\<lambda>s. True) ''github''))
     = [CacheLookup ''github'']"
  by code_simp

subsection \<open>The order of the list\<close>

text \<open>
  Claim C9 says that the list command orders its results by server name in
  case-sensitive code-point order. The command sorts with \<open>localeCompare\<close>; under the
  runtime's collation \<open>alpha\<close> comes before \<open>Beta\<close>, while by code points \<open>Beta\<close> is the
  smaller name.
\<close>

theorem list_order_not_code_point_order:
  "map_sum id (map ServerWithTools.name)
       (listCommand_servers localeCompare_letters (\<lambda>step. 0) reachable Map.empty twoServers)
     = Inr [''alpha'', ''Beta''] \<and>
   ''Beta'' < ''alpha'' \<and> \<not> ''alpha'' < ''Beta''"
  by code_simp

text \<open>
  Claim C9, amended. For every comparator that is consistent (any two names are
  comparable, and the comparison is transitive), as \<open>localeCompare\<close> is, the array the
  list command renders holds exactly the answers of the per-server units, arranged so
  that a name is never followed by one that \<open>localeCompare\<close> puts before it.
\<close>

theorem listCommand_sorted_by_localeCompare:
  assumes total: "\<And>a b. localeCompare a b \<le> 0 \<or> localeCompare b a \<le> 0"
    and trans: "\<And>a b c. localeCompare a b \<le> 0 \<Longrightarrow> localeCompare b c \<le> 0
      \<Longrightarrow> localeCompare a c \<le> 0"
  shows "\<exists>servers. listCommand_servers localeCompare order net env config = Inr servers \<and>
     mset servers = mset (map (listUnit net config) (listServerNames config)) \<and>
     sorted_wrt (\<lambda>a b. localeCompare (ServerWithTools.name a) (ServerWithTools.name b) \<le> 0)
       servers"
proof -
  let ?compare = "\<lambda>a b. localeCompare (ServerWithTools.name a) (ServerWithTools.name b)"
  have "sorted_wrt (\<lambda>a b. ?compare a b \<le> 0)
      (sortBy ?compare (map (listUnit net config) (listServerNames config)))"
  proof (rule sorted_sortBy)
    show "?compare a b \<le> 0 \<or> ?compare b a \<le> 0" for a b
      by (rule total)
    show "?compare a b \<le> 0 \<Longrightarrow> ?compare b c \<le> 0 \<Longrightarrow> ?compare a c \<le> 0" for a b c
      by (rule trans)
  qed
  then show ?thesis
    by (simp add: listCommand_servers_eq mset_sortBy)
qed

theorem listCommand_sorted_by_localeCompare_witness:
  "(localeCompare_letters ''alpha'' ''Beta'' \<le> 0 \<or> localeCompare_letters ''Beta'' ''alpha'' \<le> 0) \<and>
   (\<exists>servers.
      listCommand_servers localeCompare_letters (\<lambda>step. 0) reachable Map.empty twoServers
        = Inr servers \<and>
      mset servers = mset (map (listUnit reachable twoServers) (listServerNames twoServers)) \<and>
      sorted_wrt
        (\<lambda>a b. localeCompare_letters (ServerWithTools.name a) (ServerWithTools.name b) \<le> 0)
        servers)"
proof -
  have "\<exists>servers.
      listCommand_servers localeCompare_letters (\<lambda>step. 0) reachable Map.empty twoServers
        = Inr servers \<and>
      mset servers = mset (map (listUnit reachable twoServers) (listServerNames twoServers)) \<and>
      sorted_wrt
        (\<lambda>a b. localeCompare_letters (ServerWithTools.name a) (ServerWithTools.name b) \<le> 0)
        servers"
  proof (rule listCommand_sorted_by_localeCompare)
    show "localeCompare_letters a b \<le> 0 \<or> localeCompare_letters b a \<le> 0" for a b
      by (rule localeCompare_letters_total)
    show "localeCompare_letters a b \<le> 0 \<Longrightarrow> localeCompare_letters b c \<le> 0
        \<Longrightarrow> localeCompare_letters a c \<le> 0" for a b c
      by (rule localeCompare_letters_trans)
  qed
  with localeCompare_letters_total [of "''alpha''" "''Beta''"] show ?thesis
    by blast
qed


subsection \<open>Servers that fail\<close>

text \<open>Without \<open>MCP_DEBUG\<close> no call of \<open>debug\<close> writes anything.\<close>

lemma debug_unset:
  "\<not> truthy (env ''MCP_DEBUG'') \<Longrightarrow> concat (map (debug env) messages) = []"
  by (induction messages) (simp_all add: debug_def)

lemma listCommand_debug_unset:
  "\<not> truthy (env ''MCP_DEBUG'') \<Longrightarrow>
     listCommand fmt numberToString localeCompare order net env unitMessages options loaded
       = listCommand fmt numberToString localeCompare order net env [] options loaded"
  by (simp add: listCommand_def debug_unset Let_def split: sum.splits)

text \<open>
  Claim C10 says that the list command, like the grep command, writes one warning
  line to stderr that names the failed servers. The list command has no such line.
  With one configured server that refuses the connection, and \<open>MCP_DEBUG\<close> not set, it
  writes nothing to stderr at all, whatever the unit of work passed to \<open>debug\<close>: it
  shows the failure in the list itself.
\<close>

theorem listCommand_no_failure_warning:
  "\<forall>unitMessages.
     listCommand plainFormatters (\<lambda>n. decimal (nat n)) localeCompare_letters (\<lambda>step. 0)
         unreachable Map.empty unitMessages
         \<lparr>ListOptions.withDescriptions = False, json = False\<rparr> ([], Inr githubOnly)
       = [Stdout ''github\<newline>  * <error: connect ECONNREFUSED 127.0.0.1:3000>'']"
proof
  fix unitMessages
  have unset: "\<not> truthy (Map.empty ''MCP_DEBUG'')"
    by (simp add: truthy_def)
  have evaluated: "listCommand plainFormatters (\<lambda>n. decimal (nat n)) localeCompare_letters (\<lambda>step. 0)
         unreachable Map.empty []
         \<lparr>ListOptions.withDescriptions = False, json = False\<rparr> ([], Inr githubOnly)
       = [Stdout ''github\<newline>  * <error: connect ECONNREFUSED 127.0.0.1:3000>'']"
    by code_simp
  show "listCommand plainFormatters (\<lambda>n. decimal (nat n)) localeCompare_letters (\<lambda>step. 0)
         unreachable Map.empty unitMessages
         \<lparr>ListOptions.withDescriptions = False, json = False\<rparr> ([], Inr githubOnly)
       = [Stdout ''github\<newline>  * <error: connect ECONNREFUSED 127.0.0.1:3000>'']"
    by (subst listCommand_debug_unset [OF unset]) (rule evaluated)
qed

text \<open>
  Claim C10, amended. Take a configuration that names a server, and a run in which
  \<open>loadConfig\<close> returns it. The only lines either command writes before its result are
  the warnings of \<open>loadConfig\<close> and, when \<open>MCP_DEBUG\<close> is set, the lines of \<open>debug\<close>: the
  command's own line and then those of the units of work. After them:
  \<^item> the grep command writes one line \<open>Warning: N server(s) failed to connect: a, b\<close> to
    stderr if and only if the unit of some server ended with an error message that is
    not empty. \<open>N\<close> counts, and the line names, exactly the servers whose unit ended
    so, in the order in which \<open>listServerNames\<close> (\<open>Object.keys\<close> of \<open>mcpServers\<close>) gives
    them. Then it writes once to stdout: the matches of the servers whose unit ended
    without an error, or \<open>No tools found matching "pattern"\<close> when there are none.
  \<^item> the list command writes no such line, whether servers failed or not. It writes
    once, to stdout: with \<open>--json\<close> the name, the tools and the error of every server;
    otherwise the list of the servers, in which a server whose unit ended with an
    error message that is not empty has the single entry \<open><error: message>\<close> in place
    of its tools.
\<close>

theorem failed_servers_reporting:
  assumes configured: "listServerNames config \<noteq> []"
  shows "grepCommand fmt numberToString globToRegex rt view order net env grepMessages options
         (configWarnings, Inr config)
       = (let unit = grepUnit rt view net config (globToRegex (pattern options));
              failedServers =
                filter (\<lambda>serverName'. truthy (ServerSearchResult.error (unit serverName')))
                  (listServerNames config);
              found =
                concat (map (\<lambda>serverName'. results (unit serverName'))
                  (filter (\<lambda>serverName'. ServerSearchResult.error (unit serverName') = None)
                     (listServerNames config)))
          in map Stderr configWarnings
             @ debug env (''Searching '' @ decimal (length (listServerNames config))
                          @ '' servers for pattern '' @ [CHR 0x22] @ pattern options
                          @ [CHR 0x22] @ '' (concurrency: ''
                          @ numberToString (getConcurrencyLimit env) @ '')'')
             @ concat (map (debug env) grepMessages)
             @ (if failedServers = [] then [] else [Stderr (failedServersWarning failedServers)])
             @ [Stdout
                  (if found = [] then
                     ''No tools found matching '' @ [CHR 0x22] @ pattern options @ [CHR 0x22]
                   else if GrepOptions.json options then formatJson_results fmt found
                   else formatSearchResults fmt found (GrepOptions.withDescriptions options))]) \<and>
     listCommand fmt numberToString localeCompare order net env listMessages listOptions
         (configWarnings, Inr config)
       = (let servers =
                sortBy (\<lambda>a b. localeCompare (ServerWithTools.name a) (ServerWithTools.name b))
                  (map (listUnit net config) (listServerNames config))
          in map Stderr configWarnings
             @ debug env (''Processing '' @ decimal (length (listServerNames config))
                          @ '' servers with concurrency ''
                          @ numberToString (getConcurrencyLimit env))
             @ concat (map (debug env) listMessages)
             @ [Stdout
                  (if ListOptions.json listOptions then
                     formatJson_servers fmt
                       (map (\<lambda>s. (ServerWithTools.name s, ServerWithTools.tools s,
                                   ServerWithTools.error s)) servers)
                   else
                     formatServerList fmt
                       (map (\<lambda>s. (ServerWithTools.name s,
                                   if truthy (ServerWithTools.error s)
                                   then [\<lparr>ToolInfo.name = ''<error: '' @ the (ServerWithTools.error s) @ ''>'',
                                          description = None, inputSchema = []\<rparr>]
                                   else ServerWithTools.tools s)) servers)
                       (ListOptions.withDescriptions listOptions))])"
proof -
  let ?names = "listServerNames config"
  let ?unit = "grepUnit rt view net config (globToRegex (pattern options))"
  define serverResults where "serverResults = map ?unit ?names"
  define failedServers where
    "failedServers = filter (\<lambda>n. truthy (ServerSearchResult.error (?unit n))) ?names"
  define found where
    "found = concat (map (\<lambda>n. results (?unit n))
       (filter (\<lambda>n. ServerSearchResult.error (?unit n) = None) ?names))"
  have names_of_failed:
    "map ServerSearchResult.serverName
       (filter (\<lambda>result. truthy (ServerSearchResult.error result)) serverResults)
     = failedServers"
  proof -
    have "map ServerSearchResult.serverName
        (filter (\<lambda>result. truthy (ServerSearchResult.error result)) (map ?unit ?names))
      = map (\<lambda>n. ServerSearchResult.serverName (?unit n))
          (filter (\<lambda>n. truthy (ServerSearchResult.error (?unit n))) ?names)"
      by (simp add: filter_map comp_def)
    also have "\<dots> = filter (\<lambda>n. truthy (ServerSearchResult.error (?unit n))) ?names"
      by (simp add: grepUnit_serverName)
    finally show ?thesis
      by (simp add: serverResults_def failedServers_def)
  qed
  have all_found: "concat (map results serverResults) = found"
  proof -
    have "concat (map (\<lambda>n. results (?unit n))
        (filter (\<lambda>n. ServerSearchResult.error (?unit n) = None) ?names))
      = concat (map (\<lambda>n. results (?unit n)) ?names)"
      by (rule concat_map_filter_empty) (rule grepUnit_failed_no_results)
    then show ?thesis
      by (simp add: found_def serverResults_def comp_def)
  qed
  have pool: "processWithConcurrency order ?names
       (\<lambda>serverName' index. Inr (?unit serverName') :: js_error + ServerSearchResult)
       (nat (getConcurrencyLimit env))
     = Inr (map Some serverResults)"
    by (simp add: pool_of_units serverResults_def)
  have filled: "those (map Some serverResults) = Some serverResults"
    using those_map_Some [of "\<lambda>x. x" serverResults] by simp
  have grep: "grepCommand fmt numberToString globToRegex rt view order net env grepMessages options
         (configWarnings, Inr config)
       = (let unit = ?unit;
              failedServers =
                filter (\<lambda>serverName'. truthy (ServerSearchResult.error (unit serverName'))) ?names;
              found =
                concat (map (\<lambda>serverName'. results (unit serverName'))
                  (filter (\<lambda>serverName'. ServerSearchResult.error (unit serverName') = None)
                     ?names))
          in map Stderr configWarnings
             @ debug env (''Searching '' @ decimal (length ?names)
                          @ '' servers for pattern '' @ [CHR 0x22] @ pattern options
                          @ [CHR 0x22] @ '' (concurrency: ''
                          @ numberToString (getConcurrencyLimit env) @ '')'')
             @ concat (map (debug env) grepMessages)
             @ (if failedServers = [] then [] else [Stderr (failedServersWarning failedServers)])
             @ [Stdout
                  (if found = [] then
                     ''No tools found matching '' @ [CHR 0x22] @ pattern options @ [CHR 0x22]
                   else if GrepOptions.json options then formatJson_results fmt found
                   else formatSearchResults fmt found (GrepOptions.withDescriptions options))])"
    unfolding Let_def failedServers_def [symmetric] found_def [symmetric]
    using configured
    by (simp add: grepCommand_def Let_def pool filled names_of_failed all_found)
  have list: "listCommand fmt numberToString localeCompare order net env listMessages listOptions
         (configWarnings, Inr config)
       = (let servers =
                sortBy (\<lambda>a b. localeCompare (ServerWithTools.name a) (ServerWithTools.name b))
                  (map (listUnit net config) ?names)
          in map Stderr configWarnings
             @ debug env (''Processing '' @ decimal (length ?names)
                          @ '' servers with concurrency ''
                          @ numberToString (getConcurrencyLimit env))
             @ concat (map (debug env) listMessages)
             @ [Stdout
                  (if ListOptions.json listOptions then
                     formatJson_servers fmt
                       (map (\<lambda>s. (ServerWithTools.name s, ServerWithTools.tools s,
                                   ServerWithTools.error s)) servers)
                   else
                     formatServerList fmt
                       (map (\<lambda>s. (ServerWithTools.name s,
                                   if truthy (ServerWithTools.error s)
                                   then [\<lparr>ToolInfo.name = ''<error: '' @ the (ServerWithTools.error s) @ ''>'',
                                          description = None, inputSchema = []\<rparr>]
                                   else ServerWithTools.tools s)) servers)
                       (ListOptions.withDescriptions listOptions))])"
    using configured
    by (simp add: listCommand_def Let_def listCommand_servers_eq)
  from grep list show ?thesis ..
qed

text \<open>
  The two servers, of which only \<open>alpha\<close> accepts a connection, with \<open>MCP_DEBUG\<close> set and
  no retries. The messages of the units are in the order of a run in which \<open>Beta\<close> is
  refused before \<open>alpha\<close> answers.
\<close>

theorem failed_servers_reporting_witness:
  "listServerNames twoServers \<noteq> [] \<and>
   ServerSearchResult.error
     (grepUnit fragmentOfJSON
        (\<lambda>serverName'. freshHome\<lparr>process_env := [''MCP_DEBUG'' \<mapsto> ''1'', ''MCP_MAX_RETRIES'' \<mapsto> ''0'']\<rparr>)
        onlyAlphaAnswers twoServers (\<lambda>s. True) ''Beta'')
     = Some ''connect ECONNREFUSED 127.0.0.1:3000'' \<and>
   ServerSearchResult.error
     (grepUnit fragmentOfJSON
        (\<lambda>serverName'. freshHome\<lparr>process_env := [''MCP_DEBUG'' \<mapsto> ''1'', ''MCP_MAX_RETRIES'' \<mapsto> ''0'']\<rparr>)
        onlyAlphaAnswers twoServers (\<lambda>s. True) ''alpha'') = None \<and>
   grepCommand plainFormatters (\<lambda>n. decimal (nat n)) (\<lambda>glob s. True) fragmentOfJSON
       (\<lambda>serverName'. freshHome\<lparr>process_env := [''MCP_DEBUG'' \<mapsto> ''1'', ''MCP_MAX_RETRIES'' \<mapsto> ''0'']\<rparr>)
       (\<lambda>step. 0) onlyAlphaAnswers [''MCP_DEBUG'' \<mapsto> ''1'', ''MCP_MAX_RETRIES'' \<mapsto> ''0'']
       [''No cache found for Beta'', ''No cache found for alpha'',
        ''Beta: connecting to server (cache miss)'', ''alpha: connecting to server (cache miss)'',
        ''Beta: connection failed - connect ECONNREFUSED 127.0.0.1:3000'',
        ''Cached 1 tools for alpha'', ''alpha: found 1 matches'']
       \<lparr>pattern = ''*'', withDescriptions = False, json = False\<rparr> ([], Inr twoServers)
     = [Stderr (''[mcp-cli] Searching 2 servers for pattern '' @ [CHR 0x22] @ ''*'' @ [CHR 0x22]
                @ '' (concurrency: 5)''),
        Stderr ''[mcp-cli] No cache found for Beta'',
        Stderr ''[mcp-cli] No cache found for alpha'',
        Stderr ''[mcp-cli] Beta: connecting to server (cache miss)'',
        Stderr ''[mcp-cli] alpha: connecting to server (cache miss)'',
        Stderr ''[mcp-cli] Beta: connection failed - connect ECONNREFUSED 127.0.0.1:3000'',
        Stderr ''[mcp-cli] Cached 1 tools for alpha'',
        Stderr ''[mcp-cli] alpha: found 1 matches'',
        Stderr ''Warning: 1 server(s) failed to connect: Beta'',
        Stdout ''alpha/search''] \<and>
   listCommand plainFormatters (\<lambda>n. decimal (nat n)) localeCompare_letters (\<lambda>step. 0)
       onlyAlphaAnswers [''MCP_DEBUG'' \<mapsto> ''1'', ''MCP_MAX_RETRIES'' \<mapsto> ''0'']
       [''Beta: connection failed - connect ECONNREFUSED 127.0.0.1:3000'',
        ''alpha: loaded 1 tools'']
       \<lparr>ListOptions.withDescriptions = False, json = False\<rparr> ([], Inr twoServers)
     = [Stderr ''[mcp-cli] Processing 2 servers with concurrency 5'',
        Stderr ''[mcp-cli] Beta: connection failed - connect ECONNREFUSED 127.0.0.1:3000'',
        Stderr ''[mcp-cli] alpha: loaded 1 tools'',
        Stdout ''alpha\<newline>  * search\<newline>\<newline>Beta\<newline>  * <error: connect ECONNREFUSED 127.0.0.1:3000>'']"
proof -
  let ?env = "[''MCP_DEBUG'' \<mapsto> ''1'', ''MCP_MAX_RETRIES'' \<mapsto> ''0'']"
  let ?view = "\<lambda>serverName' :: string. freshHome\<lparr>process_env := ?env\<rparr>"
  let ?unit = "grepUnit fragmentOfJSON ?view onlyAlphaAnswers twoServers (\<lambda>s. True)"
  let ?options = "\<lparr>pattern = ''*'', withDescriptions = False, json = False\<rparr>"
  let ?grepMessages =
    "[''No cache found for Beta'', ''No cache found for alpha'',
      ''Beta: connecting to server (cache miss)'', ''alpha: connecting to server (cache miss)'',
      ''Beta: connection failed - connect ECONNREFUSED 127.0.0.1:3000'',
      ''Cached 1 tools for alpha'', ''alpha: found 1 matches'']"
  let ?listMessages =
    "[''Beta: connection failed - connect ECONNREFUSED 127.0.0.1:3000'',
      ''alpha: loaded 1 tools'']"
  have configured: "listServerNames twoServers \<noteq> []"
    by code_simp
  have beta: "ServerSearchResult.error (?unit ''Beta'') = Some ''connect ECONNREFUSED 127.0.0.1:3000''"
    and alpha: "ServerSearchResult.error (?unit ''alpha'') = None"
    by code_simp+
  note reported = failed_servers_reporting
    [where options = ?options and globToRegex = "\<lambda>glob s. True",
     OF configured, where fmt = plainFormatters and order = "\<lambda>step. 0"
       and env = ?env and localeCompare = localeCompare_letters
       and numberToString = "\<lambda>n. decimal (nat n)" and rt = fragmentOfJSON
       and view = ?view and net = onlyAlphaAnswers and configWarnings = "[]"
       and grepMessages = ?grepMessages and listMessages = ?listMessages
       and listOptions = "\<lparr>ListOptions.withDescriptions = False, json = False\<rparr>"]
  have grep: "grepCommand plainFormatters (\<lambda>n. decimal (nat n)) (\<lambda>glob s. True) fragmentOfJSON
       ?view (\<lambda>step. 0) onlyAlphaAnswers ?env ?grepMessages ?options ([], Inr twoServers)
     = [Stderr (''[mcp-cli] Searching 2 servers for pattern '' @ [CHR 0x22] @ ''*'' @ [CHR 0x22]
                @ '' (concurrency: 5)''),
        Stderr ''[mcp-cli] No cache found for Beta'',
        Stderr ''[mcp-cli] No cache found for alpha'',
        Stderr ''[mcp-cli] Beta: connecting to server (cache miss)'',
        Stderr ''[mcp-cli] alpha: connecting to server (cache miss)'',
        Stderr ''[mcp-cli] Beta: connection failed - connect ECONNREFUSED 127.0.0.1:3000'',
        Stderr ''[mcp-cli] Cached 1 tools for alpha'',
        Stderr ''[mcp-cli] alpha: found 1 matches'',
        Stderr ''Warning: 1 server(s) failed to connect: Beta'',
        Stdout ''alpha/search'']"
    using reported [THEN conjunct1] by code_simp
  have list: "listCommand plainFormatters (\<lambda>n. decimal (nat n)) localeCompare_letters (\<lambda>step. 0)
       onlyAlphaAnswers ?env ?listMessages
       \<lparr>ListOptions.withDescriptions = False, json = False\<rparr> ([], Inr twoServers)
     = [Stderr ''[mcp-cli] Processing 2 servers with concurrency 5'',
        Stderr ''[mcp-cli] Beta: connection failed - connect ECONNREFUSED 127.0.0.1:3000'',
        Stderr ''[mcp-cli] alpha: loaded 1 tools'',
        Stdout ''alpha\<newline>  * search\<newline>\<newline>Beta\<newline>  * <error: connect ECONNREFUSED 127.0.0.1:3000>'']"
    using reported [THEN conjunct2] by code_simp
  from configured beta alpha grep list show ?thesis
    by simp
qed
end
